theory Spec2Isabelle
  imports Complex_Main "HOL-Library.AList"
begin

section \<open>Values, errors and the output table\<close>

text \<open>
  The script \<^verbatim>\<open>Landsat_data_download.py\<close> holds one function,
  \<^verbatim>\<open>Landsat_Surface_Reflectance\<close>. It builds Earth Engine objects (expressions that
  the client library only evaluates when \<^verbatim>\<open>getInfo()\<close> is called on them), asks the
  catalog service for their values and collects rows in a pandas DataFrame.

  Numbers (longitude, latitude, cloud cover, scale, coefficients, pixel values) are of an
  arbitrary type \<open>'n\<close>: the Python code never computes with them, it only passes them on.
  A value is what the service's JSON holds in a property; it is never null (Earth Engine
  stores no null property). A table cell is a value or Python's \<^verbatim>\<open>None\<close>.
\<close>

datatype 'n val = Num 'n | Str string | Lst "'n val list"

type_synonym 'n cell = "'n val option"

datatype error =
    EEException string
  | KeyError string
  | ValueError string
  | InvalidIndexError string

text \<open>
  A DataFrame: the column labels, the row labels and the rows, each row holding one cell
  per column, in the order of the columns.
\<close>

record 'n dataframe =
  df_columns :: "string list"
  df_index :: "nat list"
  df_rows :: "'n cell list list"

text \<open>\<^verbatim>\<open>pd.DataFrame(columns=cols)\<close>: no rows.\<close>

definition DataFrame :: "string list \<Rightarrow> 'n dataframe" where
  "DataFrame cols = \<lparr>df_columns = cols, df_index = [], df_rows = []\<rparr>"

text \<open>
  \<^verbatim>\<open>df.loc[label] = values\<close> with a list of values: the list must have one value per
  column (pandas raises ValueError otherwise); a row that carries the label is overwritten,
  and a label the frame does not have yet is added with its row at the end.
\<close>

definition loc_setitem :: "'n dataframe \<Rightarrow> nat \<Rightarrow> 'n cell list \<Rightarrow> error + 'n dataframe" where
  "loc_setitem df label vals =
     (if length vals \<noteq> length (df_columns df)
      then Inl (ValueError ''cannot set a row with mismatched columns'')
      else if label \<in> set (df_index df)
      then Inr (df\<lparr>df_rows := map (\<lambda>(l, r). if l = label then vals else r)
                                    (zip (df_index df) (df_rows df))\<rparr>)
      else Inr (df\<lparr>df_index := df_index df @ [label], df_rows := df_rows df @ [vals]\<rparr>))"

text \<open>
  \<^verbatim>\<open>df.append(data_row, ignore_index=True)\<close> with a dict, as pandas 1.5 does it (the
  method no longer exists in pandas 2): the dict becomes a one-row frame that is
  concatenated to \<open>df\<close>. On a frame with a repeated column label the concatenation raises
  InvalidIndexError. Otherwise keys of the dict that are no column yet become new columns
  after the old ones, the old rows get a null cell there, the new row holds the dict's
  value under each column (null where the dict has no such key), and the rows are
  relabelled 0, 1, 2, ... The storage type that pandas infers for a column (float64 for
  a column of numbers) is not modelled: a cell holds the value as it was given.
\<close>

definition df_append :: "'n dataframe \<Rightarrow> (string \<times> 'n val) list \<Rightarrow> error + 'n dataframe" where
  "df_append df data_row =
     (if \<not> distinct (df_columns df)
      then Inl (InvalidIndexError ''Reindexing only valid with uniquely valued Index objects'')
      else
        (let new_columns = remdups (filter (\<lambda>k. k \<notin> set (df_columns df)) (map fst data_row));
             combined_columns = df_columns df @ new_columns
         in Inr \<lparr>df_columns = combined_columns,
                 df_index = [0..<Suc (length (df_rows df))],
                 df_rows = map (\<lambda>r. r @ replicate (length new_columns) None) (df_rows df)
                           @ [map (map_of data_row) combined_columns]\<rparr>))"

text \<open>The cell of a row under a column label (the first column with that label).\<close>

definition cell_of :: "'n dataframe \<Rightarrow> 'n cell list \<Rightarrow> string \<Rightarrow> 'n cell" where
  "cell_of df row c = (case map_of (zip (df_columns df) row) c of None \<Rightarrow> None | Some v \<Rightarrow> v)"

section \<open>Earth Engine objects and the catalog service\<close>

text \<open>
  The objects the function builds. Each constructor is one call of the client library;
  nothing is sent to the service before \<^verbatim>\<open>getInfo()\<close>.
\<close>

datatype 'n geometry = Point 'n 'n

datatype ee_date = Date string

datatype 'n image_collection =
    ImageCollection string
  | Select "'n image_collection" "string list"
  | FilterBounds "'n image_collection" "'n geometry"
  | FilterDate "'n image_collection" ee_date ee_date
  | FilterMetadata "'n image_collection" string string 'n

datatype 'n ee_number = Size "'n image_collection" | ListSize "'n ee_list"
  and 'n ee_list = ToList "'n image_collection" "'n ee_number"

datatype 'n image =
    ImageOfListGet "'n ee_list" nat
  | Multiply "'n image" "'n val"
  | Add "'n image" "'n val"

datatype 'n feature_collection = SampleRegions "'n image" "'n geometry list" 'n bool

text \<open>What \<^verbatim>\<open>getInfo()\<close> returns for an image and for a feature collection.\<close>

record 'n image_info =
  image_properties :: "string \<rightharpoonup> 'n val"

record 'n feature_info =
  feature_properties :: "string \<rightharpoonup> 'n val"

record 'n feature_collection_info =
  features :: "'n feature_info list"

text \<open>
  The catalog service as the function sees it: the answer to \<^verbatim>\<open>getInfo()\<close> on a number,
  on an image and on a feature collection. An answer is a value or the exception the client
  library raises (authentication, network, unknown collection, a computation error).
\<close>

record 'n service =
  number_getInfo :: "'n ee_number \<Rightarrow> error + nat"
  image_getInfo :: "'n image \<Rightarrow> error + 'n image_info"
  features_getInfo :: "'n feature_collection \<Rightarrow> error + 'n feature_collection_info"

text \<open>
  \<^verbatim>\<open>geometry[key]\<close>: the client library (\<^verbatim>\<open>ee.Geometry.__getitem__\<close>) answers from the
  GeoJSON of the geometry, \<^verbatim>\<open>{'type': 'Point', 'coordinates': [longitude, latitude]}\<close>,
  without asking the service; another key raises KeyError.
\<close>

definition geometry_getitem :: "'n geometry \<Rightarrow> string \<Rightarrow> error + 'n val" where
  "geometry_getitem g key =
     (case g of Point lon lat \<Rightarrow>
        if key = ''type'' then Inr (Str ''Point'')
        else if key = ''coordinates'' then Inr (Lst [Num lon, Num lat])
        else Inl (KeyError key))"

section \<open>The function\<close>

text \<open>
  The loop of the empty case, \<^verbatim>\<open>for i in range(len(empty_df.columns)): empty_df.loc[0] =
  [None] * len(empty_df.columns)\<close>: every pass writes the row labelled 0.
\<close>

fun empty_rows_loop :: "'n dataframe \<Rightarrow> nat list \<Rightarrow> error + 'n dataframe" where
  "empty_rows_loop empty_df [] = Inr empty_df"
| "empty_rows_loop empty_df (i # rest) =
     (case loc_setitem empty_df 0 (replicate (length (df_columns empty_df)) None) of
        Inl e \<Rightarrow> Inl e
      | Inr empty_df' \<Rightarrow> empty_rows_loop empty_df' rest)"

text \<open>
  \<^verbatim>\<open>for band in bands: data_row[band] = properties[band]\<close>. The dict \<open>data_row\<close> is an
  association list; a band the feature does not have raises KeyError.
\<close>

fun bands_loop ::
  "(string \<rightharpoonup> 'n val) \<Rightarrow> (string \<times> 'n val) list \<Rightarrow> string list \<Rightarrow> error + (string \<times> 'n val) list"
where
  "bands_loop properties data_row [] = Inr data_row"
| "bands_loop properties data_row (band # rest) =
     (case properties band of
        None \<Rightarrow> Inl (KeyError band)
      | Some v \<Rightarrow> bands_loop properties (AList.update band v data_row) rest)"

text \<open>
  \<^verbatim>\<open>for feature in sampled_values: ...\<close>: one row appended per feature (line 115), or
  the error of the append.
\<close>

fun features_loop ::
  "'n geometry \<Rightarrow> 'n val \<Rightarrow> 'n val \<Rightarrow> string list \<Rightarrow> 'n dataframe \<Rightarrow> 'n feature_info list
   \<Rightarrow> error + 'n dataframe"
where
  "features_loop point_of_interest date cloud_cover bands df [] = Inr df"
| "features_loop point_of_interest date cloud_cover bands df (feature # rest) =
     (case geometry_getitem point_of_interest ''coordinates'' of
        Inl e \<Rightarrow> Inl e
      | Inr coordinates \<Rightarrow>
          (case bands_loop (feature_properties feature)
                  [(''Coordinate'', coordinates), (''Date'', date), (''CloudCover'', cloud_cover)]
                  bands of
             Inl e \<Rightarrow> Inl e
           | Inr data_row \<Rightarrow>
               (case df_append df data_row of
                  Inl e \<Rightarrow> Inl e
                | Inr df' \<Rightarrow> features_loop point_of_interest date cloud_cover bands df' rest)))"

text \<open>\<^verbatim>\<open>properties[key]\<close> on the metadata of an image.\<close>

definition getitem :: "(string \<rightharpoonup> 'n val) \<Rightarrow> string \<Rightarrow> error + 'n val" where
  "getitem properties key = (case properties key of None \<Rightarrow> Inl (KeyError key) | Some v \<Rightarrow> Inr v)"

text \<open>
  The body of \<^verbatim>\<open>for i in range(image_list.size().getInfo())\<close>: the metadata of image
  \<open>i\<close> is fetched, four properties are read from it, the image times \<open>M\<close> plus \<open>A\<close> is
  sampled at the point, and the features of the sample are appended.
\<close>

definition process_image ::
  "'n service \<Rightarrow> 'n geometry \<Rightarrow> string list \<Rightarrow> 'n \<Rightarrow> 'n ee_list \<Rightarrow> nat \<Rightarrow> 'n dataframe
   \<Rightarrow> error + 'n dataframe"
where
  "process_image svc point_of_interest bands scale image_list i df =
     (let image = ImageOfListGet image_list i in
      case image_getInfo svc image of
        Inl e \<Rightarrow> Inl e
      | Inr info \<Rightarrow>
      (let properties = image_properties info in
       case getitem properties ''DATE_ACQUIRED'' of
         Inl e \<Rightarrow> Inl e
       | Inr date \<Rightarrow>
       (case getitem properties ''CLOUD_COVER'' of
          Inl e \<Rightarrow> Inl e
        | Inr cloud_cover \<Rightarrow>
        (case getitem properties ''REFLECTANCE_MULT_BAND_2'' of
           Inl e \<Rightarrow> Inl e
         | Inr M \<Rightarrow>
         (case getitem properties ''REFLECTANCE_ADD_BAND_2'' of
            Inl e \<Rightarrow> Inl e
          | Inr A \<Rightarrow>
          (let sampled_data = SampleRegions (Add (Multiply image M) A) [point_of_interest] scale True in
           case features_getInfo svc sampled_data of
             Inl e \<Rightarrow> Inl e
           | Inr sampled \<Rightarrow>
               features_loop point_of_interest date cloud_cover bands df (features sampled)))))))"

fun images_loop ::
  "'n service \<Rightarrow> 'n geometry \<Rightarrow> string list \<Rightarrow> 'n \<Rightarrow> 'n ee_list \<Rightarrow> nat list \<Rightarrow> 'n dataframe
   \<Rightarrow> error + 'n dataframe"
where
  "images_loop svc point_of_interest bands scale image_list [] df = Inr df"
| "images_loop svc point_of_interest bands scale image_list (i # rest) df =
     (case process_image svc point_of_interest bands scale image_list i df of
        Inl e \<Rightarrow> Inl e
      | Inr df' \<Rightarrow> images_loop svc point_of_interest bands scale image_list rest df')"

text \<open>The filtered collection of line 68.\<close>

definition landsat_collection ::
  "'n \<Rightarrow> 'n \<Rightarrow> string \<Rightarrow> string \<Rightarrow> string \<Rightarrow> string list \<Rightarrow> 'n \<Rightarrow> 'n image_collection"
where
  "landsat_collection longitude latitude start_date end_date collection_address bands max_cloud_cover =
     FilterMetadata
       (FilterDate
          (FilterBounds (Select (ImageCollection collection_address) bands) (Point longitude latitude))
          (Date start_date) (Date end_date))
       ''CLOUD_COVER'' ''less_than'' max_cloud_cover"

text \<open>The column labels of lines 73 and 79.\<close>

definition table_columns :: "string list \<Rightarrow> string list" where
  "table_columns bands = [''Date'', ''Coordinate''] @ bands @ [''CloudCover'']"

definition Landsat_Surface_Reflectance ::
  "'n service \<Rightarrow> 'n \<Rightarrow> 'n \<Rightarrow> string \<Rightarrow> string \<Rightarrow> string \<Rightarrow> string list \<Rightarrow> 'n \<Rightarrow> 'n
   \<Rightarrow> error + 'n dataframe"
where
  "Landsat_Surface_Reflectance svc longitude latitude start_date end_date collection_address bands
       max_cloud_cover scale =
     (let point_of_interest = Point longitude latitude;
          landsat = landsat_collection longitude latitude start_date end_date collection_address
                      bands max_cloud_cover
      in case number_getInfo svc (Size landsat) of
           Inl e \<Rightarrow> Inl e
         | Inr n \<Rightarrow>
             if n = 0 then
               (let empty_df = DataFrame (table_columns bands)
                in empty_rows_loop empty_df [0..<length (df_columns empty_df)])
             else
               (let df = DataFrame (table_columns bands);
                    image_list = ToList landsat (Size landsat)
                in case number_getInfo svc (ListSize image_list) of
                     Inl e \<Rightarrow> Inl e
                   | Inr m \<Rightarrow>
                       images_loop svc point_of_interest bands scale image_list [0..<m] df))"

text \<open>The default arguments of the signature.\<close>

definition default_collection_address :: string where
  "default_collection_address = ''LANDSAT/LC08/C02/T1_L2''"

definition default_bands :: "string list" where
  "default_bands = [''SR_B4'', ''SR_B3'', ''SR_B2'']"

section \<open>Services used as examples\<close>

text \<open>A service whose filtered collection is empty.\<close>

definition no_images_service :: "real service" where
  "no_images_service =
     \<lparr>number_getInfo = (\<lambda>q. Inr 0),
      image_getInfo = (\<lambda>q. Inl (EEException ''no such image'')),
      features_getInfo = (\<lambda>q. Inl (EEException ''no such image''))\<rparr>"

section \<open>Notions used to state the properties\<close>

text \<open>
  The rows that the pass of the outer loop for image \<open>i\<close> adds: those of the table its
  body returns when it starts from the empty table (none when the body raises).
\<close>

definition image_rows ::
  "'n service \<Rightarrow> 'n geometry \<Rightarrow> string list \<Rightarrow> 'n \<Rightarrow> 'n ee_list \<Rightarrow> nat \<Rightarrow> 'n cell list list"
where
  "image_rows svc point_of_interest bands scale image_list i =
     (case process_image svc point_of_interest bands scale image_list i (DataFrame (table_columns bands)) of
        Inl e \<Rightarrow> []
      | Inr df \<Rightarrow> df_rows df)"

text \<open>
  The features the service returns for the point sample of image \<open>i\<close>, that is for the
  request the loop body builds from the coefficients it reads in the metadata of image \<open>i\<close>
  (none when a call fails or a coefficient is missing).
\<close>

definition image_sample ::
  "'n service \<Rightarrow> 'n geometry \<Rightarrow> 'n \<Rightarrow> 'n ee_list \<Rightarrow> nat \<Rightarrow> 'n feature_info list"
where
  "image_sample svc point_of_interest scale image_list i =
     (let image = ImageOfListGet image_list i in
      case image_getInfo svc image of
        Inl e \<Rightarrow> []
      | Inr info \<Rightarrow>
          (case getitem (image_properties info) ''REFLECTANCE_MULT_BAND_2'' of
             Inl e \<Rightarrow> []
           | Inr M \<Rightarrow>
               (case getitem (image_properties info) ''REFLECTANCE_ADD_BAND_2'' of
                  Inl e \<Rightarrow> []
                | Inr A \<Rightarrow>
                    (case features_getInfo svc
                            (SampleRegions (Add (Multiply image M) A) [point_of_interest] scale True) of
                       Inl e \<Rightarrow> []
                     | Inr sampled \<Rightarrow> features sampled))))"

text \<open>
  The row appended for one feature, cell by cell: under the label of a requested band the
  value of the feature; under another label the entry of the dict of line 105.
\<close>

definition feature_row ::
  "'n val \<Rightarrow> 'n val \<Rightarrow> 'n val \<Rightarrow> string list \<Rightarrow> 'n feature_info \<Rightarrow> 'n cell list"
where
  "feature_row coordinates date cloud_cover bands feature =
     map (\<lambda>c. if c \<in> set bands then feature_properties feature c
              else map_of [(''Coordinate'', coordinates), (''Date'', date),
                           (''CloudCover'', cloud_cover)] c)
         (table_columns bands)"

text \<open>
  The rows of the image that the service lists at position \<open>i\<close>: from the metadata the
  service returns for element \<open>i\<close> of the list and from the features it returns for the
  sample of that element, one row per feature, in the order of the features, with the
  date and the cloud cover of that metadata.
\<close>

definition image_block ::
  "'n service \<Rightarrow> 'n geometry \<Rightarrow> string list \<Rightarrow> 'n \<Rightarrow> 'n ee_list \<Rightarrow> nat \<Rightarrow> 'n cell list list"
where
  "image_block svc point_of_interest bands scale image_list i =
     (case image_getInfo svc (ImageOfListGet image_list i) of
        Inl e \<Rightarrow> []
      | Inr info \<Rightarrow>
          (case (image_properties info ''DATE_ACQUIRED'', image_properties info ''CLOUD_COVER'',
                 geometry_getitem point_of_interest ''coordinates'') of
             (Some date, Some cloud_cover, Inr coordinates) \<Rightarrow>
               map (feature_row coordinates date cloud_cover bands)
                 (image_sample svc point_of_interest scale image_list i)
           | _ \<Rightarrow> []))"

text \<open>
  What a successful pass of the outer loop for image \<open>i\<close> has read: the metadata of the
  image with its four properties, and the answer to the sample request built from them,
  every feature of which has the requested bands; and the column labels are distinct if
  a row was appended.
\<close>

definition image_pass ::
  "'n service \<Rightarrow> 'n geometry \<Rightarrow> string list \<Rightarrow> 'n \<Rightarrow> 'n ee_list \<Rightarrow> nat
   \<Rightarrow> 'n image_info \<Rightarrow> 'n val \<Rightarrow> 'n val \<Rightarrow> 'n val \<Rightarrow> 'n val \<Rightarrow> 'n feature_collection_info \<Rightarrow> bool"
where
  "image_pass svc point_of_interest bands scale image_list i info date cloud_cover M A sampled =
     (image_getInfo svc (ImageOfListGet image_list i) = Inr info
      \<and> image_properties info ''DATE_ACQUIRED'' = Some date
      \<and> image_properties info ''CLOUD_COVER'' = Some cloud_cover
      \<and> image_properties info ''REFLECTANCE_MULT_BAND_2'' = Some M
      \<and> image_properties info ''REFLECTANCE_ADD_BAND_2'' = Some A
      \<and> features_getInfo svc
            (SampleRegions (Add (Multiply (ImageOfListGet image_list i) M) A)
               [point_of_interest] scale True) = Inr sampled
      \<and> list_all (\<lambda>f. list_all (\<lambda>b. feature_properties f b \<noteq> None) bands) (features sampled)
      \<and> (features sampled = [] \<or> distinct (table_columns bands)))"

section \<open>A reference catalog service\<close>

text \<open>
  Modelled from the spec: the catalog service (Earth Engine, reached through the client
  library \<^verbatim>\<open>ee\<close>), which the script calls and which is not part of the repository. The
  spec has the service filter the images by point, date range and cloud cover, apply
  \<^verbatim>\<open>value' = value * M + A\<close> to every band, and sample the pixel of each band at the
  point; the operator of the cloud-cover filter is the \<^verbatim>\<open>'less_than'\<close> that the script
  passes. The properties of the function are proved for every service, those that depend
  on what the service computes (the cloud-cover filter, the linear correction) for every
  service that does this work as the function expects; the reference service does, and
  it gives the examples.

  A stored image has its metadata, its footprint, its acquisition date and its bands; a
  band gives the pixel value seen at a point and a scale, or nothing where the pixel is
  masked. A catalog maps a collection address to the images of the collection, in the
  order in which the service lists them.
\<close>

record 'n stored_image =
  metadata :: "string \<rightharpoonup> 'n val"
  footprint_contains :: "'n \<Rightarrow> 'n \<Rightarrow> bool"
  acquired_between :: "string \<Rightarrow> string \<Rightarrow> bool"
  image_bands :: "(string \<times> ('n \<Rightarrow> 'n \<Rightarrow> 'n \<Rightarrow> 'n option)) list"

type_synonym 'n catalog = "string \<rightharpoonup> 'n stored_image list"

text \<open>\<^verbatim>\<open>image.select(bands)\<close>: the named bands, in that order; a name that matches no band is an error.\<close>

definition select_bands :: "string list \<Rightarrow> 'n stored_image \<Rightarrow> error + 'n stored_image" where
  "select_bands bands img =
     (case filter (\<lambda>b. map_of (image_bands img) b = None) bands of
        [] \<Rightarrow> Inr (img\<lparr>image_bands := map (\<lambda>b. (b, the (map_of (image_bands img) b))) bands\<rparr>)
      | b # _ \<Rightarrow> Inl (EEException (''Image.select: Band pattern '' @ b @ '' did not match any bands'')))"

fun select_all :: "string list \<Rightarrow> 'n stored_image list \<Rightarrow> error + 'n stored_image list" where
  "select_all bands [] = Inr []"
| "select_all bands (img # imgs) =
     (case select_bands bands img of
        Inl e \<Rightarrow> Inl e
      | Inr img' \<Rightarrow> (case select_all bands imgs of Inl e \<Rightarrow> Inl e | Inr imgs' \<Rightarrow> Inr (img' # imgs')))"

text \<open>
  The value of a collection. \<^verbatim>\<open>filterBounds\<close> keeps the images whose footprint holds the
  point, \<^verbatim>\<open>filterDate\<close> those acquired in the range, and \<^verbatim>\<open>filterMetadata\<close> with
  \<^verbatim>\<open>'less_than'\<close> those whose property is a number below the given one.
\<close>

fun eval_collection :: "('n::ord) catalog \<Rightarrow> 'n image_collection \<Rightarrow> error + 'n stored_image list" where
  "eval_collection cat (ImageCollection address) =
     (case cat address of
        None \<Rightarrow> Inl (EEException (''ImageCollection.load: ImageCollection asset '' @ address @ '' not found''))
      | Some imgs \<Rightarrow> Inr imgs)"
| "eval_collection cat (Select c bands) =
     (case eval_collection cat c of Inl e \<Rightarrow> Inl e | Inr imgs \<Rightarrow> select_all bands imgs)"
| "eval_collection cat (FilterBounds c g) =
     (case eval_collection cat c of
        Inl e \<Rightarrow> Inl e
      | Inr imgs \<Rightarrow> (case g of Point lon lat \<Rightarrow> Inr (filter (\<lambda>img. footprint_contains img lon lat) imgs)))"
| "eval_collection cat (FilterDate c start end) =
     (case eval_collection cat c of
        Inl e \<Rightarrow> Inl e
      | Inr imgs \<Rightarrow>
          (case (start, end) of (Date s, Date e) \<Rightarrow> Inr (filter (\<lambda>img. acquired_between img s e) imgs)))"
| "eval_collection cat (FilterMetadata c name operator v) =
     (case eval_collection cat c of
        Inl e \<Rightarrow> Inl e
      | Inr imgs \<Rightarrow>
          if operator = ''less_than''
          then Inr (filter (\<lambda>img. case metadata img name of Some (Num x) \<Rightarrow> x < v | _ \<Rightarrow> False) imgs)
          else Inl (EEException (''Unknown operator: '' @ operator)))"

fun eval_number :: "('n::ord) catalog \<Rightarrow> 'n ee_number \<Rightarrow> error + nat"
  and eval_list :: "('n::ord) catalog \<Rightarrow> 'n ee_list \<Rightarrow> error + 'n stored_image list"
where
  "eval_number cat (Size c) =
     (case eval_collection cat c of Inl e \<Rightarrow> Inl e | Inr imgs \<Rightarrow> Inr (length imgs))"
| "eval_number cat (ListSize l) =
     (case eval_list cat l of Inl e \<Rightarrow> Inl e | Inr imgs \<Rightarrow> Inr (length imgs))"
| "eval_list cat (ToList c count) =
     (case eval_collection cat c of
        Inl e \<Rightarrow> Inl e
      | Inr imgs \<Rightarrow> (case eval_number cat count of Inl e \<Rightarrow> Inl e | Inr k \<Rightarrow> Inr (take k imgs)))"

text \<open>
  The value of an image: element \<open>i\<close> of a list, or an image with every band multiplied
  by, or increased by, a constant (the metadata is that of the first operand).
\<close>

definition map_bands :: "('n \<Rightarrow> 'n) \<Rightarrow> 'n stored_image \<Rightarrow> 'n stored_image" where
  "map_bands f img =
     img\<lparr>image_bands := map (\<lambda>(b, px). (b, \<lambda>lon lat scale. map_option f (px lon lat scale)))
                             (image_bands img)\<rparr>"

fun eval_image :: "('n::{ord,times,plus}) catalog \<Rightarrow> 'n image \<Rightarrow> error + 'n stored_image" where
  "eval_image cat (ImageOfListGet l i) =
     (case eval_list cat l of
        Inl e \<Rightarrow> Inl e
      | Inr imgs \<Rightarrow>
          if i < length imgs then Inr (imgs ! i)
          else Inl (EEException ''List.get: List index out of bounds''))"
| "eval_image cat (Multiply im v) =
     (case eval_image cat im of
        Inl e \<Rightarrow> Inl e
      | Inr img \<Rightarrow>
          (case v of
             Num k \<Rightarrow> Inr (map_bands (\<lambda>x. x * k) img)
           | _ \<Rightarrow> Inl (EEException ''Image.multiply: the operand is not a number'')))"
| "eval_image cat (Add im v) =
     (case eval_image cat im of
        Inl e \<Rightarrow> Inl e
      | Inr img \<Rightarrow>
          (case v of
             Num k \<Rightarrow> Inr (map_bands (\<lambda>x. x + k) img)
           | _ \<Rightarrow> Inl (EEException ''Image.add: the operand is not a number'')))"

text \<open>
  \<^verbatim>\<open>sampleRegions\<close> at points: a point gives one feature with one property per band of
  the image, the pixel value there, and no feature when a band is masked there.
\<close>

definition sample_point :: "'n stored_image \<Rightarrow> 'n \<Rightarrow> 'n geometry \<Rightarrow> 'n feature_info list" where
  "sample_point img scale g =
     (case g of Point lon lat \<Rightarrow>
        (case those (map (\<lambda>(b, px). map_option (\<lambda>x. (b, Num x)) (px lon lat scale)) (image_bands img)) of
           None \<Rightarrow> []
         | Some kvs \<Rightarrow> [\<lparr>feature_properties = map_of kvs\<rparr>]))"

fun eval_features ::
  "('n::{ord,times,plus}) catalog \<Rightarrow> 'n feature_collection \<Rightarrow> error + 'n feature_collection_info"
where
  "eval_features cat (SampleRegions im regions scale geometries) =
     (case eval_image cat im of
        Inl e \<Rightarrow> Inl e
      | Inr img \<Rightarrow> Inr \<lparr>features = concat (map (sample_point img scale) regions)\<rparr>)"

definition catalog_service :: "('n::{ord,times,plus}) catalog \<Rightarrow> 'n service" where
  "catalog_service cat =
     \<lparr>number_getInfo = eval_number cat,
      image_getInfo = (\<lambda>im. case eval_image cat im of
                                 Inl e \<Rightarrow> Inl e
                               | Inr img \<Rightarrow> Inr \<lparr>image_properties = metadata img\<rparr>),
      features_getInfo = eval_features cat\<rparr>"

text \<open>
  A stored Landsat image for the examples: acquisition date, cloud cover, the coefficients
  of Collection 2 surface reflectance, and what the pixel of band SR_B4 holds at every
  point (nothing when masked); SR_B3 and SR_B2 hold 400 and 800 more.
\<close>

definition example_image :: "string \<Rightarrow> real \<Rightarrow> real option \<Rightarrow> real stored_image" where
  "example_image date cloud raw =
     \<lparr>metadata = [''DATE_ACQUIRED'' \<mapsto> Str date, ''CLOUD_COVER'' \<mapsto> Num cloud,
                  ''REFLECTANCE_MULT_BAND_2'' \<mapsto> Num 0.0000275,
                  ''REFLECTANCE_ADD_BAND_2'' \<mapsto> Num (- 0.2)],
      footprint_contains = (\<lambda>lon lat. True),
      acquired_between = (\<lambda>start end. True),
      image_bands = [(''SR_B4'', \<lambda>lon lat scale. raw),
                     (''SR_B3'', \<lambda>lon lat scale. map_option (\<lambda>x. x + 400) raw),
                     (''SR_B2'', \<lambda>lon lat scale. map_option (\<lambda>x. x + 800) raw)]\<rparr>"

text \<open>
  A catalog of three images, listed newest first; the second one is too cloudy for the
  default threshold of 10.
\<close>

definition example_catalog :: "real catalog" where
  "example_catalog =
     [default_collection_address \<mapsto>
        [example_image ''2022-06-01'' 2.5 (Some 10000),
         example_image ''2022-04-14'' 40 (Some 12000),
         example_image ''2022-03-01'' 7 (Some 8000)]]"

text \<open>A catalog of one image whose pixel at the point is masked.\<close>

definition masked_catalog :: "real catalog" where
  "masked_catalog = [default_collection_address \<mapsto> [example_image ''2022-06-01'' 2.5 None]]"

text \<open>The table the function returns for \<open>example_catalog\<close> with the default arguments.\<close>

definition example_table :: "real dataframe" where
  "example_table =
     \<lparr>df_columns = [''Date'', ''Coordinate'', ''SR_B4'', ''SR_B3'', ''SR_B2'', ''CloudCover''],
      df_index = [0, 1],
      df_rows =
        [[Some (Str ''2022-06-01''), Some (Lst [Num (- 122.431), Num 37.773]),
          Some (Num 0.075), Some (Num 0.086), Some (Num 0.097), Some (Num 2.5)],
         [Some (Str ''2022-03-01''), Some (Lst [Num (- 122.431), Num 37.773]),
          Some (Num 0.02), Some (Num 0.031), Some (Num 0.042), Some (Num 7)]]\<rparr>"

text \<open>
  A catalog of four images that the service lists in an order that is not the order of
  their dates, and the table the function returns for it with the default arguments.
\<close>

definition unordered_catalog :: "real catalog" where
  "unordered_catalog =
     [default_collection_address \<mapsto>
        [example_image ''2022-06-01'' 2.5 (Some 10000),
         example_image ''2022-03-01'' 7 (Some 8000),
         example_image ''2022-09-10'' 1 (Some 9000),
         example_image ''2022-01-20'' 4 (Some 11000)]]"

definition unordered_table :: "real dataframe" where
  "unordered_table =
     \<lparr>df_columns = [''Date'', ''Coordinate'', ''SR_B4'', ''SR_B3'', ''SR_B2'', ''CloudCover''],
      df_index = [0, 1, 2, 3],
      df_rows =
        [[Some (Str ''2022-06-01''), Some (Lst [Num (- 122.431), Num 37.773]),
          Some (Num 0.075), Some (Num 0.086), Some (Num 0.097), Some (Num 2.5)],
         [Some (Str ''2022-03-01''), Some (Lst [Num (- 122.431), Num 37.773]),
          Some (Num 0.02), Some (Num 0.031), Some (Num 0.042), Some (Num 7)],
         [Some (Str ''2022-09-10''), Some (Lst [Num (- 122.431), Num 37.773]),
          Some (Num 0.0475), Some (Num 0.0585), Some (Num 0.0695), Some (Num 1)],
         [Some (Str ''2022-01-20''), Some (Lst [Num (- 122.431), Num 37.773]),
          Some (Num 0.1025), Some (Num 0.1135), Some (Num 0.1245), Some (Num 4)]]\<rparr>"

text \<open>
  A collection of the user's own, with one image whose two bands are named like two of
  the fixed columns of the table.
\<close>

definition collision_catalog :: "real catalog" where
  "collision_catalog =
     [''users/example/scenes'' \<mapsto>
        [\<lparr>metadata = [''DATE_ACQUIRED'' \<mapsto> Str ''2022-06-01'', ''CLOUD_COVER'' \<mapsto> Num 0.5,
                       ''REFLECTANCE_MULT_BAND_2'' \<mapsto> Num 0.0000275,
                       ''REFLECTANCE_ADD_BAND_2'' \<mapsto> Num (- 0.2)],
           footprint_contains = (\<lambda>lon lat. True),
           acquired_between = (\<lambda>start end. True),
           image_bands = [(''Coordinate'', \<lambda>lon lat scale. Some 60000),
                          (''CloudCover'', \<lambda>lon lat scale. Some 60000)]\<rparr>]]"

section \<open>The calls to the service\<close>

text \<open>
  A call of \<^verbatim>\<open>getInfo()\<close> sends one object to the service and returns its value or
  raises. The three kinds of call of the script, as one type of request and one of
  response.
\<close>

datatype 'n request =
    NumberRequest "'n ee_number"
  | ImageRequest "'n image"
  | FeaturesRequest "'n feature_collection"

datatype 'n response =
    NumberResponse nat
  | ImageResponse "'n image_info"
  | FeaturesResponse "'n feature_collection_info"

definition getInfo :: "'n service \<Rightarrow> 'n request \<Rightarrow> error + 'n response" where
  "getInfo svc r =
     (case r of
        NumberRequest q \<Rightarrow>
          (case number_getInfo svc q of Inl e \<Rightarrow> Inl e | Inr n \<Rightarrow> Inr (NumberResponse n))
      | ImageRequest q \<Rightarrow>
          (case image_getInfo svc q of Inl e \<Rightarrow> Inl e | Inr info \<Rightarrow> Inr (ImageResponse info))
      | FeaturesRequest q \<Rightarrow>
          (case features_getInfo svc q of Inl e \<Rightarrow> Inl e | Inr fc \<Rightarrow> Inr (FeaturesResponse fc)))"

text \<open>
  The requests that one pass of the outer loop sends, in order: the metadata of image
  \<open>i\<close> (line 87) and, when it arrives with the four properties, the sample (line 101).
\<close>

definition image_requests ::
  "'n service \<Rightarrow> 'n geometry \<Rightarrow> 'n \<Rightarrow> 'n ee_list \<Rightarrow> nat \<Rightarrow> 'n request list"
where
  "image_requests svc point_of_interest scale image_list i =
     (let image = ImageOfListGet image_list i in
      ImageRequest image #
      (case image_getInfo svc image of
         Inl e \<Rightarrow> []
       | Inr info \<Rightarrow>
       (let properties = image_properties info in
        case getitem properties ''DATE_ACQUIRED'' of
          Inl e \<Rightarrow> []
        | Inr date \<Rightarrow>
        (case getitem properties ''CLOUD_COVER'' of
           Inl e \<Rightarrow> []
         | Inr cloud_cover \<Rightarrow>
         (case getitem properties ''REFLECTANCE_MULT_BAND_2'' of
            Inl e \<Rightarrow> []
          | Inr M \<Rightarrow>
          (case getitem properties ''REFLECTANCE_ADD_BAND_2'' of
             Inl e \<Rightarrow> []
           | Inr A \<Rightarrow>
               [FeaturesRequest
                  (SampleRegions (Add (Multiply image M) A) [point_of_interest] scale True)]))))))"

text \<open>The requests of the outer loop: those of each pass, until a pass raises.\<close>

fun loop_requests ::
  "'n service \<Rightarrow> 'n geometry \<Rightarrow> string list \<Rightarrow> 'n \<Rightarrow> 'n ee_list \<Rightarrow> nat list \<Rightarrow> 'n dataframe
   \<Rightarrow> 'n request list"
where
  "loop_requests svc point_of_interest bands scale image_list [] df = []"
| "loop_requests svc point_of_interest bands scale image_list (i # rest) df =
     image_requests svc point_of_interest scale image_list i
     @ (case process_image svc point_of_interest bands scale image_list i df of
          Inl e \<Rightarrow> []
        | Inr df' \<Rightarrow> loop_requests svc point_of_interest bands scale image_list rest df')"

text \<open>
  The requests of a whole call, in order: the size of the collection (line 71), then, when
  it is not zero, the size of the list (line 85) and the requests of the loop.
\<close>

definition requests_issued ::
  "'n service \<Rightarrow> 'n \<Rightarrow> 'n \<Rightarrow> string \<Rightarrow> string \<Rightarrow> string \<Rightarrow> string list \<Rightarrow> 'n \<Rightarrow> 'n
   \<Rightarrow> 'n request list"
where
  "requests_issued svc longitude latitude start_date end_date collection_address bands
       max_cloud_cover scale =
     (let point_of_interest = Point longitude latitude;
          landsat = landsat_collection longitude latitude start_date end_date collection_address
                      bands max_cloud_cover
      in NumberRequest (Size landsat) #
         (case number_getInfo svc (Size landsat) of
            Inl e \<Rightarrow> []
          | Inr n \<Rightarrow>
              if n = 0 then []
              else
                (let df = DataFrame (table_columns bands);
                     image_list = ToList landsat (Size landsat)
                 in NumberRequest (ListSize image_list) #
                    (case number_getInfo svc (ListSize image_list) of
                       Inl e \<Rightarrow> []
                     | Inr m \<Rightarrow>
                         loop_requests svc point_of_interest bands scale image_list [0..<m] df))))"

text \<open>The four properties the loop body reads in the metadata of an image.\<close>

definition metadata_fields :: "string list" where
  "metadata_fields =
     [''DATE_ACQUIRED'', ''CLOUD_COVER'', ''REFLECTANCE_MULT_BAND_2'', ''REFLECTANCE_ADD_BAND_2'']"

text \<open>
  The reference service on \<open>example_catalog\<close>, except that every sample request fails
  (the computation times out).
\<close>

definition failing_service :: "real service" where
  "failing_service =
     (catalog_service example_catalog)
       \<lparr>features_getInfo := (\<lambda>q. Inl (EEException ''Computation timed out.''))\<rparr>"

text \<open>A catalog of one image that lacks the additive coefficient.\<close>

definition incomplete_image :: "real stored_image" where
  "incomplete_image =
     \<lparr>metadata = [''DATE_ACQUIRED'' \<mapsto> Str ''2022-06-01'', ''CLOUD_COVER'' \<mapsto> Num 2.5,
                  ''REFLECTANCE_MULT_BAND_2'' \<mapsto> Num 0.0000275],
      footprint_contains = (\<lambda>lon lat. True),
      acquired_between = (\<lambda>start end. True),
      image_bands = [(''SR_B4'', \<lambda>lon lat scale. Some 10000),
                     (''SR_B3'', \<lambda>lon lat scale. Some 10400),
                     (''SR_B2'', \<lambda>lon lat scale. Some 10800)]\<rparr>"

definition incomplete_catalog :: "real catalog" where
  "incomplete_catalog = [default_collection_address \<mapsto> [incomplete_image]]"

text \<open>
  The reference service on \<open>example_catalog\<close>, except for the size of another
  collection, about which the function does not ask.
\<close>

definition other_service :: "real service" where
  "other_service =
     (catalog_service example_catalog)
       \<lparr>number_getInfo :=
          (\<lambda>q. if q = Size (ImageCollection ''COPERNICUS/S2_SR'') then Inr 1000
               else number_getInfo (catalog_service example_catalog) q)\<rparr>"

section \<open>The arguments as Python objects\<close>

text \<open>
  Of the arguments, the numbers and the strings are immutable Python values; only
  \<open>bands\<close> is an object that a callee could change, and the default list of the
  signature is one object shared by all the calls that omit the argument. To state that
  the function leaves it alone, the list objects live in a heap (address \<open>a\<close> is
  position \<open>a\<close>), \<open>bands\<close> is an address, and every statement of the function that
  handles a list of strings acts on the heap as Python does: a list display and the
  operator \<^verbatim>\<open>+\<close> on lists each make a new list, and reading or iterating a list
  changes nothing. (The function calls no method of \<open>bands\<close> and assigns to none of its
  items; \<^verbatim>\<open>select(bands)\<close> hands the list to the client library, which reads it.)
\<close>

type_synonym heap = "string list list"

text \<open>A list display \<^verbatim>\<open>[x, y, ...]\<close>: a new object.\<close>

definition new_list :: "string list \<Rightarrow> heap \<Rightarrow> nat \<times> heap" where
  "new_list xs h = (length h, h @ [xs])"

text \<open>\<^verbatim>\<open>a + b\<close> on lists: a new object holding the items of \<open>a\<close>, then those of \<open>b\<close>.\<close>

definition list_add :: "nat \<Rightarrow> nat \<Rightarrow> heap \<Rightarrow> nat \<times> heap" where
  "list_add a b h = new_list (h ! a @ h ! b) h"

text \<open>\<^verbatim>\<open>['Date','Coordinate'] + bands + ['CloudCover']\<close> of lines 73 and 79.\<close>

definition columns_list :: "nat \<Rightarrow> heap \<Rightarrow> nat \<times> heap" where
  "columns_list bands h =
     (let (l1, h1) = new_list [''Date'', ''Coordinate''] h;
          (l2, h2) = list_add l1 bands h1;
          (l3, h3) = new_list [''CloudCover''] h2
      in list_add l2 l3 h3)"

text \<open>
  The function with \<open>bands\<close> passed by reference: it returns its result and the heap it
  leaves. Each use of \<open>bands\<close> reads the object as it is at that moment.
\<close>

definition Landsat_Surface_Reflectance_heap ::
  "'n service \<Rightarrow> 'n \<Rightarrow> 'n \<Rightarrow> string \<Rightarrow> string \<Rightarrow> string \<Rightarrow> nat \<Rightarrow> 'n \<Rightarrow> 'n \<Rightarrow> heap
   \<Rightarrow> (error + 'n dataframe) \<times> heap"
where
  "Landsat_Surface_Reflectance_heap svc longitude latitude start_date end_date collection_address
       bands max_cloud_cover scale h =
     (let point_of_interest = Point longitude latitude;
          landsat = landsat_collection longitude latitude start_date end_date collection_address
                      (h ! bands) max_cloud_cover
      in case number_getInfo svc (Size landsat) of
           Inl e \<Rightarrow> (Inl e, h)
         | Inr n \<Rightarrow>
             if n = 0 then
               (let (columns, h') = columns_list bands h;
                    empty_df = DataFrame (h' ! columns)
                in (empty_rows_loop empty_df [0..<length (df_columns empty_df)], h'))
             else
               (let (columns, h') = columns_list bands h;
                    df = DataFrame (h' ! columns);
                    image_list = ToList landsat (Size landsat)
                in case number_getInfo svc (ListSize image_list) of
                     Inl e \<Rightarrow> (Inl e, h')
                   | Inr m \<Rightarrow>
                       (images_loop svc point_of_interest (h' ! bands) scale image_list [0..<m] df,
                        h')))"

text \<open>
  The heap before a call that omits \<open>bands\<close>: the default list of the signature, at
  address 0; and the heap after the call on \<open>example_catalog\<close>, with the four lists that
  building the column labels has made.
\<close>

definition default_heap :: heap where
  "default_heap = [default_bands]"

definition heap_after_call :: heap where
  "heap_after_call =
     [[''SR_B4'', ''SR_B3'', ''SR_B2''],
      [''Date'', ''Coordinate''],
      [''Date'', ''Coordinate'', ''SR_B4'', ''SR_B3'', ''SR_B2''],
      [''CloudCover''],
      [''Date'', ''Coordinate'', ''SR_B4'', ''SR_B3'', ''SR_B2'', ''CloudCover'']]"

section \<open>What the function expects of the service\<close>

text \<open>
  The cloud-cover filter is the service's work: the function only passes the threshold in
  the query. A service honours the filter when every image it hands out from a list of a
  collection filtered by \<^verbatim>\<open>filterMetadata('CLOUD_COVER', 'less_than', threshold)\<close> has a
  number below the threshold as its CLOUD_COVER property.
\<close>

definition honours_cloud_cover_filter :: "('n::ord) service \<Rightarrow> bool" where
  "honours_cloud_cover_filter svc \<longleftrightarrow>
     (\<forall>c threshold count i info.
        image_getInfo svc
          (ImageOfListGet (ToList (FilterMetadata c ''CLOUD_COVER'' ''less_than'' threshold) count) i)
          = Inr info
        \<longrightarrow> (\<exists>x. image_properties info ''CLOUD_COVER'' = Some (Num x) \<and> x < threshold))"

text \<open>
  The linear correction too is the service's work: the function asks for the sample of
  \<^verbatim>\<open>image.multiply(M).add(A)\<close>. A service applies the correction when it answers such a
  request only for numbers \<open>M\<close> and \<open>A\<close>, and then with the features it returns for the
  sample of the image itself, every value \<open>x\<close> of a feature replaced by \<open>x * M + A\<close>.
\<close>

definition applies_linear_correction :: "('n::{times,plus}) service \<Rightarrow> bool" where
  "applies_linear_correction svc \<longleftrightarrow>
     (\<forall>im M A regions scale geometries corrected.
        features_getInfo svc (SampleRegions (Add (Multiply im M) A) regions scale geometries)
          = Inr corrected
        \<longrightarrow> (\<exists>k a raw.
               M = Num k \<and> A = Num a
               \<and> features_getInfo svc (SampleRegions im regions scale geometries) = Inr raw
               \<and> list_all2
                   (\<lambda>corrected_feature raw_feature. \<forall>band v.
                      feature_properties corrected_feature band = Some v
                      \<longrightarrow> (\<exists>x. feature_properties raw_feature band = Some (Num x)
                                \<and> v = Num (x * k + a)))
                   (features corrected) (features raw)))"

section \<open>Properties\<close>

subsection \<open>The empty case\<close>

lemma loc_setitem_null_row:
  "loc_setitem \<lparr>df_columns = cols, df_index = [0], df_rows = [replicate (length cols) None]\<rparr> 0
       (replicate (length cols) None)
     = Inr \<lparr>df_columns = cols, df_index = [0], df_rows = [replicate (length cols) None]\<rparr>"
  by (simp add: loc_setitem_def)

lemma empty_rows_loop_null_row:
  "empty_rows_loop \<lparr>df_columns = cols, df_index = [0], df_rows = [replicate (length cols) None]\<rparr> is
     = Inr \<lparr>df_columns = cols, df_index = [0], df_rows = [replicate (length cols) None]\<rparr>"
  by (induction "is") (simp_all add: loc_setitem_null_row)

lemma empty_rows_loop_DataFrame:
  "empty_rows_loop (DataFrame cols) (i # is)
     = Inr \<lparr>df_columns = cols, df_index = [0], df_rows = [replicate (length cols) None]\<rparr>"
  by (simp add: DataFrame_def loc_setitem_def empty_rows_loop_null_row)

lemma length_table_columns: "length (table_columns bands) = length bands + 3"
  by (simp add: table_columns_def)

lemma upt_table_columns: "[0..<length (table_columns bands)] = 0 # [1..<length bands + 3]"
  by (simp add: length_table_columns upt_conv_Cons)

lemma df_columns_DataFrame: "df_columns (DataFrame cols) = cols"
  by (simp add: DataFrame_def)

lemma empty_case:
  assumes "number_getInfo svc
             (Size (landsat_collection longitude latitude start_date end_date collection_address
                      bands max_cloud_cover)) = Inr 0"
  shows "Landsat_Surface_Reflectance svc longitude latitude start_date end_date collection_address
             bands max_cloud_cover scale
           = Inr \<lparr>df_columns = table_columns bands, df_index = [0],
                  df_rows = [replicate (length (table_columns bands)) None]\<rparr>"
proof -
  have "Landsat_Surface_Reflectance svc longitude latitude start_date end_date collection_address
             bands max_cloud_cover scale
          = empty_rows_loop (DataFrame (table_columns bands)) [0..<length (table_columns bands)]"
    using assms by (simp only: Landsat_Surface_Reflectance_def Let_def df_columns_DataFrame
        sum.case refl if_True)
  also have "\<dots> = Inr \<lparr>df_columns = table_columns bands, df_index = [0],
                      df_rows = [replicate (length (table_columns bands)) None]\<rparr>"
    unfolding upt_table_columns by (rule empty_rows_loop_DataFrame)
  finally show ?thesis .
qed

text \<open>
  C1. When the service reports that the filtered collection holds no image, the function
  returns a table with exactly one row (labelled 0), and every cell of that row, under
  Date, Coordinate, each requested band and CloudCover, is null.
\<close>

theorem C1_empty_result_single_null_row:
  assumes "number_getInfo svc
             (Size (landsat_collection longitude latitude start_date end_date collection_address
                      bands max_cloud_cover)) = Inr 0"
  shows "Landsat_Surface_Reflectance svc longitude latitude start_date end_date collection_address
             bands max_cloud_cover scale
           = Inr \<lparr>df_columns = [''Date'', ''Coordinate''] @ bands @ [''CloudCover''],
                  df_index = [0],
                  df_rows = [replicate (length bands + 3) None]\<rparr>"
  using empty_case [OF assms, of scale]
  by (simp only: length_table_columns) (simp only: table_columns_def)

theorem C1_witness:
  "number_getInfo no_images_service
     (Size (landsat_collection (-122.431) 37.773 ''2022-01-01'' ''2022-12-31''
              default_collection_address default_bands 10)) = Inr 0
   \<and> Landsat_Surface_Reflectance no_images_service (-122.431) 37.773 ''2022-01-01'' ''2022-12-31''
        default_collection_address default_bands 10 30
      = Inr \<lparr>df_columns = [''Date'', ''Coordinate'', ''SR_B4'', ''SR_B3'', ''SR_B2'', ''CloudCover''],
             df_index = [0],
             df_rows = [[None, None, None, None, None, None]]\<rparr>"
proof -
  have h: "number_getInfo no_images_service
     (Size (landsat_collection (-122.431) 37.773 ''2022-01-01'' ''2022-12-31''
              default_collection_address default_bands 10)) = Inr 0"
    by (simp add: no_images_service_def)
  show ?thesis
    using h C1_empty_result_single_null_row [OF h, of 30]
    by (simp add: default_bands_def numeral_eq_Suc)
qed

subsection \<open>The loops of the non-empty case\<close>

lemma bands_loop_Inr:
  "bands_loop properties data_row bands = Inr data_row' \<Longrightarrow>
     set bands \<subseteq> dom properties
     \<and> map_of data_row' = (\<lambda>k. if k \<in> set bands then properties k else map_of data_row k)
     \<and> fst ` set data_row' = fst ` set data_row \<union> set bands"
proof (induction bands arbitrary: data_row)
  case Nil
  then show ?case by simp
next
  case (Cons band rest)
  from Cons.prems obtain v where v: "properties band = Some v"
    and rest: "bands_loop properties (AList.update band v data_row) rest = Inr data_row'"
    by (auto split: option.splits)
  from Cons.IH [OF rest] v show ?case
    by (auto simp: update_conv' dom_update fun_eq_iff)
qed

lemma bands_loop_total:
  "set bands \<subseteq> dom properties \<Longrightarrow> \<exists>data_row'. bands_loop properties data_row bands = Inr data_row'"
  by (induction bands arbitrary: data_row) auto

lemma bands_loop_Inl:
  "bands_loop properties data_row bands = Inl e \<Longrightarrow> \<exists>k. e = KeyError k"
  by (induction bands arbitrary: data_row) (auto split: option.splits)

lemma df_append_known_keys:
  assumes "fst ` set data_row \<subseteq> set (df_columns df)" and "distinct (df_columns df)"
  shows "df_append df data_row
           = Inr \<lparr>df_columns = df_columns df, df_index = [0..<Suc (length (df_rows df))],
                  df_rows = df_rows df @ [map (map_of data_row) (df_columns df)]\<rparr>"
proof -
  have "filter (\<lambda>k. k \<notin> set (df_columns df)) (map fst data_row) = []"
    using assms(1) by (auto simp: filter_empty_conv)
  with assms(2) show ?thesis by (simp add: df_append_def)
qed

lemma df_append_Inr_distinct:
  "df_append df data_row = Inr df' \<Longrightarrow> distinct (df_columns df)"
  by (auto simp: df_append_def split: if_splits)

lemma set_table_columns:
  "set (table_columns bands) = {''Date'', ''Coordinate'', ''CloudCover''} \<union> set bands"
  by (auto simp: table_columns_def)

lemma features_loop_Inr:
  assumes "features_loop (Point lon lat) date cloud_cover bands df fs = Inr df'"
      and "df_columns df = table_columns bands"
  shows "df_columns df' = table_columns bands
         \<and> df_rows df' = df_rows df @ map (feature_row (Lst [Num lon, Num lat]) date cloud_cover bands) fs
         \<and> (\<forall>f \<in> set fs. set bands \<subseteq> dom (feature_properties f))
         \<and> (fs = [] \<or> distinct (table_columns bands))"
  using assms
proof (induction fs arbitrary: df)
  case Nil
  then show ?case by simp
next
  case (Cons f fs)
  let ?row0 = "[(''Coordinate'', Lst [Num lon, Num lat]), (''Date'', date), (''CloudCover'', cloud_cover)]"
  from Cons.prems(1) obtain data_row df1 where
    dr: "bands_loop (feature_properties f) ?row0 bands = Inr data_row"
    and ap: "df_append df data_row = Inr df1"
    and rest: "features_loop (Point lon lat) date cloud_cover bands df1 fs = Inr df'"
    by (auto simp: geometry_getitem_def split: sum.splits)
  note b = bands_loop_Inr [OF dr]
  from df_append_Inr_distinct [OF ap] Cons.prems(2)
  have dist: "distinct (table_columns bands)" "distinct (df_columns df)" by simp_all
  have keys: "fst ` set data_row \<subseteq> set (df_columns df)"
    using b Cons.prems(2) by (auto simp: set_table_columns)
  have app: "df1
           = \<lparr>df_columns = table_columns bands, df_index = [0..<Suc (length (df_rows df))],
              df_rows = df_rows df @ [map (map_of data_row) (table_columns bands)]\<rparr>"
    using df_append_known_keys [OF keys dist(2)] ap Cons.prems(2) by simp
  have row: "map (map_of data_row) (table_columns bands)
               = feature_row (Lst [Num lon, Num lat]) date cloud_cover bands f"
    using b by (simp add: feature_row_def)
  have cols1: "df_columns df1 = table_columns bands" using app by simp
  from Cons.IH [OF rest cols1] app row b dist(1) show ?case by simp
qed

lemma features_loop_total:
  assumes "\<forall>f \<in> set fs. set bands \<subseteq> dom (feature_properties f)"
      and "df_columns df = table_columns bands"
      and "fs = [] \<or> distinct (table_columns bands)"
  shows "\<exists>df'. features_loop (Point lon lat) date cloud_cover bands df fs = Inr df'"
  using assms
proof (induction fs arbitrary: df)
  case Nil
  then show ?case by simp
next
  case (Cons f fs)
  let ?row0 = "[(''Coordinate'', Lst [Num lon, Num lat]), (''Date'', date), (''CloudCover'', cloud_cover)]"
  from Cons.prems(1) have "set bands \<subseteq> dom (feature_properties f)" by simp
  from bands_loop_total [OF this] obtain data_row where
    dr: "bands_loop (feature_properties f) ?row0 bands = Inr data_row"
    by blast
  from Cons.prems(3) have dist: "distinct (table_columns bands)" by simp
  have keys: "fst ` set data_row \<subseteq> set (df_columns df)"
    using bands_loop_Inr [OF dr] Cons.prems(2) by (auto simp: set_table_columns)
  from dist Cons.prems(2) have "distinct (df_columns df)" by simp
  from df_append_known_keys [OF keys this] obtain df1 where
    ap: "df_append df data_row = Inr df1" and cols1: "df_columns df1 = table_columns bands"
    using Cons.prems(2) by simp
  from Cons.prems(1) dist
  have "\<exists>df'. features_loop (Point lon lat) date cloud_cover bands df1 fs = Inr df'"
    by (intro Cons.IH [OF _ cols1]) simp_all
  with dr ap show ?case by (simp add: geometry_getitem_def)
qed

lemma getitem_Inr: "getitem properties key = Inr v \<longleftrightarrow> properties key = Some v"
  by (simp add: getitem_def split: option.splits)

lemma process_image_Inr:
  assumes "process_image svc (Point lon lat) bands scale il i df = Inr df'"
      and "df_columns df = table_columns bands"
  shows "\<exists>info date cloud_cover M A sampled.
           image_pass svc (Point lon lat) bands scale il i info date cloud_cover M A sampled
           \<and> df_columns df' = table_columns bands
           \<and> df_rows df' = df_rows df
                @ map (feature_row (Lst [Num lon, Num lat]) date cloud_cover bands) (features sampled)"
proof -
  from assms(1) obtain info date cloud_cover M A sampled where
    info: "image_getInfo svc (ImageOfListGet il i) = Inr info"
    and props: "getitem (image_properties info) ''DATE_ACQUIRED'' = Inr date"
      "getitem (image_properties info) ''CLOUD_COVER'' = Inr cloud_cover"
      "getitem (image_properties info) ''REFLECTANCE_MULT_BAND_2'' = Inr M"
      "getitem (image_properties info) ''REFLECTANCE_ADD_BAND_2'' = Inr A"
    and sampled: "features_getInfo svc
            (SampleRegions (Add (Multiply (ImageOfListGet il i) M) A) [Point lon lat] scale True)
          = Inr sampled"
    and loop: "features_loop (Point lon lat) date cloud_cover bands df (features sampled) = Inr df'"
    unfolding process_image_def Let_def by (auto split: sum.splits)
  from features_loop_Inr [OF loop assms(2)] info props sampled show ?thesis
    unfolding image_pass_def getitem_Inr
    by (intro exI [of _ info] exI [of _ date] exI [of _ cloud_cover] exI [of _ M] exI [of _ A]
        exI [of _ sampled]) (auto simp: list_all_iff)
qed

lemma image_pass_process_image:
  assumes "image_pass svc (Point lon lat) bands scale il i info date cloud_cover M A sampled"
  shows "process_image svc (Point lon lat) bands scale il i df
           = features_loop (Point lon lat) date cloud_cover bands df (features sampled)"
  using assms unfolding image_pass_def process_image_def Let_def
  by (simp add: getitem_def)

lemma image_pass_rows:
  assumes "image_pass svc (Point lon lat) bands scale il i info date cloud_cover M A sampled"
  shows "image_rows svc (Point lon lat) bands scale il i
           = map (feature_row (Lst [Num lon, Num lat]) date cloud_cover bands) (features sampled)"
proof -
  from assms have "\<forall>f \<in> set (features sampled). set bands \<subseteq> dom (feature_properties f)"
    and "features sampled = [] \<or> distinct (table_columns bands)"
    unfolding image_pass_def by (auto simp: list_all_iff)
  from features_loop_total [OF this(1) df_columns_DataFrame this(2)] obtain d where
    d: "features_loop (Point lon lat) date cloud_cover bands (DataFrame (table_columns bands))
          (features sampled) = Inr d"
    by blast
  from features_loop_Inr [OF d] have
    "df_rows d = map (feature_row (Lst [Num lon, Num lat]) date cloud_cover bands) (features sampled)"
    by (simp add: DataFrame_def)
  with d show ?thesis
    by (simp add: image_rows_def image_pass_process_image [OF assms])
qed

lemma image_pass_sample:
  assumes "image_pass svc point_of_interest bands scale il i info date cloud_cover M A sampled"
  shows "image_sample svc point_of_interest scale il i = features sampled"
  using assms unfolding image_pass_def image_sample_def Let_def by (simp add: getitem_def)

lemma images_loop_Inr:
  assumes "images_loop svc (Point lon lat) bands scale il is df = Inr df'"
      and "df_columns df = table_columns bands"
  shows "df_columns df' = table_columns bands
         \<and> df_rows df' = df_rows df @ concat (map (image_rows svc (Point lon lat) bands scale il) is)
         \<and> (\<forall>i \<in> set is. \<exists>info date cloud_cover M A sampled.
               image_pass svc (Point lon lat) bands scale il i info date cloud_cover M A sampled)"
  using assms
proof (induction "is" arbitrary: df)
  case Nil
  then show ?case by simp
next
  case (Cons i rest)
  from Cons.prems(1) obtain df1 where
    one: "process_image svc (Point lon lat) bands scale il i df = Inr df1"
    and more: "images_loop svc (Point lon lat) bands scale il rest df1 = Inr df'"
    by (auto split: sum.splits)
  from process_image_Inr [OF one Cons.prems(2)] obtain info date cloud_cover M A sampled where
    pass: "image_pass svc (Point lon lat) bands scale il i info date cloud_cover M A sampled"
    and cols: "df_columns df1 = table_columns bands"
    and rows: "df_rows df1 = df_rows df
                @ map (feature_row (Lst [Num lon, Num lat]) date cloud_cover bands) (features sampled)"
    by blast
  have here: "\<exists>info date cloud_cover M A sampled.
               image_pass svc (Point lon lat) bands scale il i info date cloud_cover M A sampled"
    using pass by blast
  from Cons.IH [OF more cols] rows image_pass_rows [OF pass] here show ?case
    by simp
qed

lemma nonempty_case:
  assumes "Landsat_Surface_Reflectance svc longitude latitude start_date end_date collection_address
             bands max_cloud_cover scale = Inr df"
      and "number_getInfo svc (Size (landsat_collection longitude latitude start_date end_date
             collection_address bands max_cloud_cover)) = Inr n"
      and "n \<noteq> 0"
  shows "\<exists>m. number_getInfo svc
               (ListSize (ToList (landsat_collection longitude latitude start_date end_date
                  collection_address bands max_cloud_cover)
                  (Size (landsat_collection longitude latitude start_date end_date
                     collection_address bands max_cloud_cover)))) = Inr m
           \<and> images_loop svc (Point longitude latitude) bands scale
                (ToList (landsat_collection longitude latitude start_date end_date
                  collection_address bands max_cloud_cover)
                  (Size (landsat_collection longitude latitude start_date end_date
                     collection_address bands max_cloud_cover))) [0..<m]
                (DataFrame (table_columns bands)) = Inr df"
  using assms unfolding Landsat_Surface_Reflectance_def Let_def
  by (auto split: sum.splits)

lemma cell_of_feature_row:
  assumes "df_columns df = table_columns bands" and "c \<in> set (table_columns bands)"
  shows "cell_of df (feature_row coordinates date cloud_cover bands f) c
           = (if c \<in> set bands then feature_properties f c
              else map_of [(''Coordinate'', coordinates), (''Date'', date),
                           (''CloudCover'', cloud_cover)] c)"
  using assms by (simp add: cell_of_def feature_row_def map_of_zip_map)

lemma nonempty_rows:
  assumes "Landsat_Surface_Reflectance svc longitude latitude start_date end_date collection_address
             bands max_cloud_cover scale = Inr df"
      and "number_getInfo svc (Size (landsat_collection longitude latitude start_date end_date
             collection_address bands max_cloud_cover)) = Inr n"
      and "n \<noteq> 0"
      and "il = ToList (landsat_collection longitude latitude start_date end_date
                  collection_address bands max_cloud_cover)
                  (Size (landsat_collection longitude latitude start_date end_date
                     collection_address bands max_cloud_cover))"
  shows "\<exists>m. number_getInfo svc (ListSize il) = Inr m
           \<and> df_columns df = table_columns bands
           \<and> df_rows df = concat (map (image_rows svc (Point longitude latitude) bands scale il) [0..<m])
           \<and> (\<forall>i<m. \<exists>info date cloud_cover M A sampled.
                 image_pass svc (Point longitude latitude) bands scale il i info date cloud_cover M A sampled)"
proof -
  from nonempty_case [OF assms(1-3)] obtain m where
    m: "number_getInfo svc (ListSize il) = Inr m"
    and loop: "images_loop svc (Point longitude latitude) bands scale il [0..<m]
                 (DataFrame (table_columns bands)) = Inr df"
    unfolding assms(4) by blast
  from images_loop_Inr [OF loop] m show ?thesis
    by (simp add: DataFrame_def)
qed

lemma row_origin:
  assumes "row \<in> set (concat (map (image_rows svc (Point lon lat) bands scale il) [0..<m]))"
      and "\<forall>i<m. \<exists>info date cloud_cover M A sampled.
                 image_pass svc (Point lon lat) bands scale il i info date cloud_cover M A sampled"
  shows "\<exists>i info date cloud_cover M A sampled f.
           i < m
           \<and> image_pass svc (Point lon lat) bands scale il i info date cloud_cover M A sampled
           \<and> f \<in> set (features sampled)
           \<and> row = feature_row (Lst [Num lon, Num lat]) date cloud_cover bands f"
proof -
  from assms(1) obtain i where i: "i < m"
    and row: "row \<in> set (image_rows svc (Point lon lat) bands scale il i)"
    by auto
  from assms(2) i obtain info date cloud_cover M A sampled where
    pass: "image_pass svc (Point lon lat) bands scale il i info date cloud_cover M A sampled"
    by blast
  from row image_pass_rows [OF pass] obtain f where
    "f \<in> set (features sampled)" "row = feature_row (Lst [Num lon, Num lat]) date cloud_cover bands f"
    by auto
  with i pass show ?thesis by blast
qed

lemma image_pass_bands:
  assumes "image_pass svc p bands scale il i info date cloud_cover M A sampled"
      and "f \<in> set (features sampled)" and "b \<in> set bands"
  shows "feature_properties f b \<noteq> None"
  using assms unfolding image_pass_def by (auto simp: list_all_iff)

lemma image_pass_distinct:
  assumes "image_pass svc p bands scale il i info date cloud_cover M A sampled"
      and "f \<in> set (features sampled)"
  shows "distinct (table_columns bands)"
  using assms unfolding image_pass_def by auto

lemma distinct_table_columns:
  assumes "distinct (table_columns bands)"
  shows "''Date'' \<notin> set bands" and "''Coordinate'' \<notin> set bands"
    and "''CloudCover'' \<notin> set bands"
  using assms by (auto simp: table_columns_def)

lemma image_pass_block:
  assumes "image_pass svc (Point lon lat) bands scale il i info date cloud_cover M A sampled"
  shows "image_block svc (Point lon lat) bands scale il i
           = map (feature_row (Lst [Num lon, Num lat]) date cloud_cover bands) (features sampled)"
proof -
  from assms have "image_getInfo svc (ImageOfListGet il i) = Inr info"
    "image_properties info ''DATE_ACQUIRED'' = Some date"
    "image_properties info ''CLOUD_COVER'' = Some cloud_cover"
    unfolding image_pass_def by simp_all
  with image_pass_sample [OF assms] show ?thesis
    by (simp add: image_block_def geometry_getitem_def)
qed

lemma length_concat_blocks:
  assumes "\<forall>i<m. length (f i) = g i"
  shows "length (concat (map f [0..<m])) = sum_list (map g [0..<m])"
  using assms by (induction m) (simp_all add: length_concat)

subsection \<open>The example services, evaluated\<close>

lemma example_run:
  "Landsat_Surface_Reflectance (catalog_service example_catalog) (- 122.431) 37.773
     ''2022-01-01'' ''2022-12-31'' default_collection_address default_bands 10 30
   = Inr example_table"
  by code_simp

lemma example_size:
  "number_getInfo (catalog_service example_catalog)
     (Size (landsat_collection (- 122.431) 37.773 ''2022-01-01'' ''2022-12-31''
        default_collection_address default_bands 10)) = Inr 2"
  by code_simp

lemma example_list_size:
  "number_getInfo (catalog_service example_catalog)
     (ListSize (ToList (landsat_collection (- 122.431) 37.773 ''2022-01-01'' ''2022-12-31''
        default_collection_address default_bands 10)
       (Size (landsat_collection (- 122.431) 37.773 ''2022-01-01'' ''2022-12-31''
        default_collection_address default_bands 10)))) = Inr 2"
  by code_simp

lemma masked_run:
  "Landsat_Surface_Reflectance (catalog_service masked_catalog) (- 122.431) 37.773
     ''2022-01-01'' ''2022-12-31'' default_collection_address default_bands 10 30
   = Inr \<lparr>df_columns = [''Date'', ''Coordinate'', ''SR_B4'', ''SR_B3'', ''SR_B2'', ''CloudCover''],
          df_index = [], df_rows = []\<rparr>"
  by code_simp

lemma masked_size:
  "number_getInfo (catalog_service masked_catalog)
     (Size (landsat_collection (- 122.431) 37.773 ''2022-01-01'' ''2022-12-31''
        default_collection_address default_bands 10)) = Inr 1"
  by code_simp

lemma no_images_run:
  "Landsat_Surface_Reflectance no_images_service (- 122.431) 37.773
     ''2022-01-01'' ''2022-12-31'' default_collection_address default_bands 10 30
   = Inr \<lparr>df_columns = [''Date'', ''Coordinate'', ''SR_B4'', ''SR_B3'', ''SR_B2'', ''CloudCover''],
          df_index = [0], df_rows = [[None, None, None, None, None, None]]\<rparr>"
  by code_simp

lemma unordered_run:
  "Landsat_Surface_Reflectance (catalog_service unordered_catalog) (- 122.431) 37.773
     ''2022-01-01'' ''2022-12-31'' default_collection_address default_bands 10 30
   = Inr unordered_table"
  by code_simp

lemma unordered_size:
  "number_getInfo (catalog_service unordered_catalog)
     (Size (landsat_collection (- 122.431) 37.773 ''2022-01-01'' ''2022-12-31''
        default_collection_address default_bands 10)) = Inr 4"
  by code_simp

lemma unordered_list_size:
  "number_getInfo (catalog_service unordered_catalog)
     (ListSize (ToList (landsat_collection (- 122.431) 37.773 ''2022-01-01'' ''2022-12-31''
        default_collection_address default_bands 10)
       (Size (landsat_collection (- 122.431) 37.773 ''2022-01-01'' ''2022-12-31''
        default_collection_address default_bands 10)))) = Inr 4"
  by code_simp

lemma collision_run:
  "Landsat_Surface_Reflectance (catalog_service collision_catalog) (- 122.431) 37.773
     ''2022-01-01'' ''2022-12-31'' ''users/example/scenes'' bands 1 30
   = Inl (InvalidIndexError ''Reindexing only valid with uniquely valued Index objects'')"
  if "bands = [''Coordinate''] \<or> bands = [''CloudCover'']"
  using that by (elim disjE; hypsubst) code_simp+

subsection \<open>The shape of the table\<close>

text \<open>
  C6. Whenever the function returns a table, in the empty case as in the non-empty case,
  its columns are exactly Date, Coordinate, one column per requested band in the order
  the bands were given, and CloudCover.
\<close>

theorem C6_columns:
  assumes "Landsat_Surface_Reflectance svc longitude latitude start_date end_date collection_address
             bands max_cloud_cover scale = Inr df"
  shows "df_columns df = [''Date'', ''Coordinate''] @ bands @ [''CloudCover'']"
proof (cases "number_getInfo svc (Size (landsat_collection longitude latitude start_date end_date
             collection_address bands max_cloud_cover))")
  case (Inl e)
  with assms show ?thesis
    by (simp add: Landsat_Surface_Reflectance_def)
next
  case (Inr n)
  show ?thesis
  proof (cases "n = 0")
    case True
    from empty_case [of svc longitude latitude start_date end_date collection_address
        bands max_cloud_cover scale] Inr True assms
    have "df_columns df = table_columns bands" by auto
    then show ?thesis by (simp only: table_columns_def)
  next
    case False
    from nonempty_rows [OF assms Inr False refl]
    have "df_columns df = table_columns bands" by blast
    then show ?thesis by (simp only: table_columns_def)
  qed
qed

theorem C6_witness:
  "Landsat_Surface_Reflectance (catalog_service example_catalog) (- 122.431) 37.773
     ''2022-01-01'' ''2022-12-31'' default_collection_address default_bands 10 30
   = Inr example_table
   \<and> df_columns example_table
       = [''Date'', ''Coordinate'', ''SR_B4'', ''SR_B3'', ''SR_B2'', ''CloudCover'']
   \<and> Landsat_Surface_Reflectance no_images_service (- 122.431) 37.773
     ''2022-01-01'' ''2022-12-31'' default_collection_address default_bands 10 30
   = Inr \<lparr>df_columns = [''Date'', ''Coordinate'', ''SR_B4'', ''SR_B3'', ''SR_B2'', ''CloudCover''],
          df_index = [0], df_rows = [[None, None, None, None, None, None]]\<rparr>"
  using example_run no_images_run C6_columns [OF example_run] C6_columns [OF no_images_run]
  by (simp add: default_bands_def)

text \<open>
  C7. With at least one matching image, the rows of the returned table are the rows of the
  image the service lists at position 0, followed by those of the image at position 1, and
  so on up to the last position of the list: the rows of position \<open>i\<close> are made from the
  metadata and the sample the service returns for element \<open>i\<close> of the list, one per
  feature. The function does not reorder them, by date or otherwise.
\<close>

theorem C7_rows_in_catalog_order:
  assumes "Landsat_Surface_Reflectance svc longitude latitude start_date end_date collection_address
             bands max_cloud_cover scale = Inr df"
      and "number_getInfo svc (Size (landsat_collection longitude latitude start_date end_date
             collection_address bands max_cloud_cover)) = Inr n"
      and "1 \<le> n"
      and "number_getInfo svc
             (ListSize (ToList (landsat_collection longitude latitude start_date end_date
                  collection_address bands max_cloud_cover)
                  (Size (landsat_collection longitude latitude start_date end_date
                     collection_address bands max_cloud_cover)))) = Inr m"
  shows "df_rows df
           = concat (map (image_block svc (Point longitude latitude) bands scale
                (ToList (landsat_collection longitude latitude start_date end_date
                  collection_address bands max_cloud_cover)
                  (Size (landsat_collection longitude latitude start_date end_date
                     collection_address bands max_cloud_cover)))) [0..<m])"
proof -
  let ?il = "ToList (landsat_collection longitude latitude start_date end_date
                  collection_address bands max_cloud_cover)
                  (Size (landsat_collection longitude latitude start_date end_date
                     collection_address bands max_cloud_cover))"
  let ?p = "Point longitude latitude"
  from assms(3) have "n \<noteq> 0" by simp
  from nonempty_rows [OF assms(1,2) this refl] assms(4) have
    rows: "df_rows df = concat (map (image_rows svc ?p bands scale ?il) [0..<m])"
    and pass: "\<forall>i<m. \<exists>info date cloud_cover M A sampled.
                 image_pass svc ?p bands scale ?il i info date cloud_cover M A sampled"
    by auto
  have "image_rows svc ?p bands scale ?il i = image_block svc ?p bands scale ?il i"
    if "i \<in> set [0..<m]" for i
  proof -
    from that pass obtain info date cloud_cover M A sampled where
      p: "image_pass svc ?p bands scale ?il i info date cloud_cover M A sampled"
      by auto
    from image_pass_rows [OF p] image_pass_block [OF p] show ?thesis by simp
  qed
  then have "map (image_rows svc ?p bands scale ?il) [0..<m]
               = map (image_block svc ?p bands scale ?il) [0..<m]"
    by (intro map_cong refl)
  with rows show ?thesis by simp
qed

theorem C7_witness:
  "Landsat_Surface_Reflectance (catalog_service unordered_catalog) (- 122.431) 37.773
     ''2022-01-01'' ''2022-12-31'' default_collection_address default_bands 10 30
   = Inr unordered_table
   \<and> number_getInfo (catalog_service unordered_catalog)
       (Size (landsat_collection (- 122.431) 37.773 ''2022-01-01'' ''2022-12-31''
          default_collection_address default_bands 10)) = Inr 4
   \<and> (1::nat) \<le> 4
   \<and> number_getInfo (catalog_service unordered_catalog)
       (ListSize (ToList (landsat_collection (- 122.431) 37.773 ''2022-01-01'' ''2022-12-31''
          default_collection_address default_bands 10)
         (Size (landsat_collection (- 122.431) 37.773 ''2022-01-01'' ''2022-12-31''
          default_collection_address default_bands 10)))) = Inr 4
   \<and> df_rows unordered_table
       = concat (map (image_block (catalog_service unordered_catalog) (Point (- 122.431) 37.773)
           default_bands 30
           (ToList (landsat_collection (- 122.431) 37.773 ''2022-01-01'' ''2022-12-31''
              default_collection_address default_bands 10)
             (Size (landsat_collection (- 122.431) 37.773 ''2022-01-01'' ''2022-12-31''
              default_collection_address default_bands 10)))) [0..<4])
   \<and> map (\<lambda>row. cell_of unordered_table row ''Date'') (df_rows unordered_table)
       = [Some (Str ''2022-06-01''), Some (Str ''2022-03-01''), Some (Str ''2022-09-10''),
          Some (Str ''2022-01-20'')]
   \<and> map (\<lambda>img. metadata img ''DATE_ACQUIRED'')
         (the (unordered_catalog default_collection_address))
       = [Some (Str ''2022-06-01''), Some (Str ''2022-03-01''), Some (Str ''2022-09-10''),
          Some (Str ''2022-01-20'')]"
proof -
  have le: "(1::nat) \<le> 4" by simp
  have dates: "map (\<lambda>row. cell_of unordered_table row ''Date'') (df_rows unordered_table)
       = [Some (Str ''2022-06-01''), Some (Str ''2022-03-01''), Some (Str ''2022-09-10''),
          Some (Str ''2022-01-20'')]"
    by (simp add: unordered_table_def cell_of_def)
  have listed: "map (\<lambda>img. metadata img ''DATE_ACQUIRED'')
         (the (unordered_catalog default_collection_address))
       = [Some (Str ''2022-06-01''), Some (Str ''2022-03-01''), Some (Str ''2022-09-10''),
          Some (Str ''2022-01-20'')]"
    by (simp add: unordered_catalog_def example_image_def)
  from C7_rows_in_catalog_order [OF unordered_run unordered_size le unordered_list_size]
    unordered_run unordered_size unordered_list_size le dates listed
  show ?thesis by blast
qed

text \<open>
  C3, as stated, fails: an image that matches the filters gives no row when its pixel at
  the point is masked, since the sample then holds no feature.
\<close>

theorem C3_counterexample:
  "number_getInfo (catalog_service masked_catalog)
     (Size (landsat_collection (- 122.431) 37.773 ''2022-01-01'' ''2022-12-31''
        default_collection_address default_bands 10)) = Inr 1
   \<and> Landsat_Surface_Reflectance (catalog_service masked_catalog) (- 122.431) 37.773
       ''2022-01-01'' ''2022-12-31'' default_collection_address default_bands 10 30
     = Inr \<lparr>df_columns = [''Date'', ''Coordinate'', ''SR_B4'', ''SR_B3'', ''SR_B2'', ''CloudCover''],
            df_index = [], df_rows = []\<rparr>"
  using masked_size masked_run by (rule conjI)

text \<open>
  C3, amended. With at least one matching image, where the list of images has \<open>m\<close>
  elements, the table has one row per feature that the point samples of these \<open>m\<close>
  images return: its number of rows is the sum, over the images, of the number of
  features of the image's sample (so \<open>m\<close> rows when every sample holds one feature).
  Every row has a non-null date, a non-null coordinate and a non-null value under every
  requested band.
\<close>

theorem C3_one_row_per_sampled_feature:
  assumes "Landsat_Surface_Reflectance svc longitude latitude start_date end_date collection_address
             bands max_cloud_cover scale = Inr df"
      and "number_getInfo svc (Size (landsat_collection longitude latitude start_date end_date
             collection_address bands max_cloud_cover)) = Inr n"
      and "1 \<le> n"
      and "number_getInfo svc
             (ListSize (ToList (landsat_collection longitude latitude start_date end_date
                  collection_address bands max_cloud_cover)
                  (Size (landsat_collection longitude latitude start_date end_date
                     collection_address bands max_cloud_cover)))) = Inr m"
  shows "length (df_rows df)
           = sum_list (map (\<lambda>i. length (image_sample svc (Point longitude latitude) scale
                (ToList (landsat_collection longitude latitude start_date end_date
                  collection_address bands max_cloud_cover)
                  (Size (landsat_collection longitude latitude start_date end_date
                     collection_address bands max_cloud_cover))) i)) [0..<m])
         \<and> (\<forall>row \<in> set (df_rows df).
               cell_of df row ''Date'' \<noteq> None
               \<and> cell_of df row ''Coordinate'' \<noteq> None
               \<and> (\<forall>band \<in> set bands. cell_of df row band \<noteq> None))"
proof -
  let ?il = "ToList (landsat_collection longitude latitude start_date end_date
                  collection_address bands max_cloud_cover)
                  (Size (landsat_collection longitude latitude start_date end_date
                     collection_address bands max_cloud_cover))"
  let ?p = "Point longitude latitude"
  from assms(3) have "n \<noteq> 0" by simp
  from nonempty_rows [OF assms(1,2) this refl] assms(4) have
    cols: "df_columns df = table_columns bands"
    and rows: "df_rows df = concat (map (image_rows svc ?p bands scale ?il) [0..<m])"
    and pass: "\<forall>i<m. \<exists>info date cloud_cover M A sampled.
                 image_pass svc ?p bands scale ?il i info date cloud_cover M A sampled"
    by auto
  have "\<forall>i<m. length (image_rows svc ?p bands scale ?il i) = length (image_sample svc ?p scale ?il i)"
  proof (intro allI impI)
    fix i assume "i < m"
    with pass obtain info date cloud_cover M A sampled where
      "image_pass svc ?p bands scale ?il i info date cloud_cover M A sampled" by blast
    from image_pass_rows [OF this] image_pass_sample [OF this]
    show "length (image_rows svc ?p bands scale ?il i) = length (image_sample svc ?p scale ?il i)"
      by simp
  qed
  from length_concat_blocks [OF this] rows have count: "length (df_rows df)
           = sum_list (map (\<lambda>i. length (image_sample svc ?p scale ?il i)) [0..<m])"
    by simp
  have cells: "cell_of df row ''Date'' \<noteq> None \<and> cell_of df row ''Coordinate'' \<noteq> None
               \<and> (\<forall>band \<in> set bands. cell_of df row band \<noteq> None)"
    if "row \<in> set (df_rows df)" for row
  proof -
    from that rows row_origin [OF _ pass, of row] obtain i info date cloud_cover M A sampled f where
      p: "image_pass svc ?p bands scale ?il i info date cloud_cover M A sampled"
      and f: "f \<in> set (features sampled)"
      and row: "row = feature_row (Lst [Num longitude, Num latitude]) date cloud_cover bands f"
      by auto
    note present = image_pass_bands [OF p f]
    have "cell_of df row c \<noteq> None" if "c \<in> set (table_columns bands)" for c
      unfolding row cell_of_feature_row [OF cols that]
      using present that by (auto simp: set_table_columns)
    then show ?thesis by (simp add: set_table_columns)
  qed
  from count cells show ?thesis by blast
qed

theorem C3_witness:
  "Landsat_Surface_Reflectance (catalog_service example_catalog) (- 122.431) 37.773
     ''2022-01-01'' ''2022-12-31'' default_collection_address default_bands 10 30
   = Inr example_table
   \<and> number_getInfo (catalog_service example_catalog)
       (Size (landsat_collection (- 122.431) 37.773 ''2022-01-01'' ''2022-12-31''
          default_collection_address default_bands 10)) = Inr 2
   \<and> (1::nat) \<le> 2
   \<and> number_getInfo (catalog_service example_catalog)
       (ListSize (ToList (landsat_collection (- 122.431) 37.773 ''2022-01-01'' ''2022-12-31''
          default_collection_address default_bands 10)
         (Size (landsat_collection (- 122.431) 37.773 ''2022-01-01'' ''2022-12-31''
          default_collection_address default_bands 10)))) = Inr 2
   \<and> length (df_rows example_table)
       = sum_list (map (\<lambda>i. length (image_sample (catalog_service example_catalog)
           (Point (- 122.431) 37.773) 30
           (ToList (landsat_collection (- 122.431) 37.773 ''2022-01-01'' ''2022-12-31''
              default_collection_address default_bands 10)
             (Size (landsat_collection (- 122.431) 37.773 ''2022-01-01'' ''2022-12-31''
              default_collection_address default_bands 10))) i)) [0..<2])
   \<and> length (df_rows example_table) = 2"
proof -
  have le: "(1::nat) \<le> 2" by simp
  have two: "length (df_rows example_table) = 2"
    by (simp add: example_table_def)
  from C3_one_row_per_sampled_feature [OF example_run example_size le example_list_size]
    example_run example_size example_list_size le two
  show ?thesis by blast
qed



subsection \<open>The work of the service\<close>

lemma those_sample:
  assumes "those (map (\<lambda>(b, px). map_option (\<lambda>x. (b, Num x)) (px lon lat scale)) L) = Some kvs"
      and "map_of kvs b = Some v"
  shows "\<exists>px raw. map_of L b = Some px \<and> px lon lat scale = Some raw \<and> v = Num raw"
  using assms
proof (induction L arbitrary: kvs)
  case Nil
  then show ?case by simp
next
  case (Cons entry L)
  obtain b' px' where entry: "entry = (b', px')" by (cases entry)
  from Cons.prems(1) obtain raw' kvs' where
    raw': "px' lon lat scale = Some raw'"
    and kvs': "those (map (\<lambda>(b, px). map_option (\<lambda>x. (b, Num x)) (px lon lat scale)) L) = Some kvs'"
    and kvs: "kvs = (b', Num raw') # kvs'"
    unfolding entry by (auto split: option.splits)
  show ?case
  proof (cases "b = b'")
    case True
    with Cons.prems(2) raw' show ?thesis unfolding kvs entry by simp
  next
    case False
    with Cons.prems(2) have "map_of kvs' b = Some v" unfolding kvs by simp
    from Cons.IH [OF kvs' this] False show ?thesis unfolding entry by simp
  qed
qed

lemma map_bands_twice: "map_bands f (map_bands g img) = map_bands (\<lambda>x. f (g x)) img"
  by (simp add: map_bands_def option.map_comp comp_def case_prod_unfold)

lemma those_corrected:
  "those (map (\<lambda>(b, px). map_option (\<lambda>x. (b, Num x)) (px lon lat scale))
            (map (\<lambda>(b, px). (b, \<lambda>lon lat scale. map_option g (px lon lat scale))) L))
   = map_option (map (\<lambda>(b, v). (b, case v of Num x \<Rightarrow> Num (g x) | w \<Rightarrow> w)))
       (those (map (\<lambda>(b, px). map_option (\<lambda>x. (b, Num x)) (px lon lat scale)) L))"
proof (induction L)
  case Nil
  then show ?case by simp
next
  case (Cons entry L)
  obtain b px where entry: "entry = (b, px)" by (cases entry)
  show ?case
  proof (cases "px lon lat scale")
    case None
    then show ?thesis unfolding entry by simp
  next
    case (Some raw)
    with Cons.IH show ?thesis unfolding entry
      by (cases "those (map (\<lambda>(b, px). map_option (\<lambda>x. (b, Num x)) (px lon lat scale)) L)")
         simp_all
  qed
qed

lemma those_values_numbers:
  assumes "those (map (\<lambda>(b, px). map_option (\<lambda>x. (b, Num x)) (px lon lat scale)) L) = Some kvs"
      and "map_of kvs band = Some w"
  shows "\<exists>x. w = Num x"
  using those_sample [OF assms] by blast

lemma sample_point_corrected:
  "list_all2
     (\<lambda>corrected_feature raw_feature. \<forall>band v.
        feature_properties corrected_feature band = Some v
        \<longrightarrow> (\<exists>x. feature_properties raw_feature band = Some (Num x) \<and> v = Num (g x)))
     (sample_point (map_bands g img) scale region) (sample_point img scale region)"
proof -
  obtain lon lat where region: "region = Point lon lat" by (cases region)
  let ?h = "\<lambda>(b, px). map_option (\<lambda>x. (b, Num x)) (px lon lat scale)"
  let ?c = "\<lambda>(b, v). (b, case v of Num x \<Rightarrow> Num (g x) | w \<Rightarrow> w)"
  have corrected: "those (map ?h (image_bands (map_bands g img)))
                     = map_option (map ?c) (those (map ?h (image_bands img)))"
    unfolding map_bands_def using those_corrected [of lon lat scale g "image_bands img"]
    by (simp del: map_map)
  show ?thesis
  proof (cases "those (map ?h (image_bands img))")
    case None
    with corrected show ?thesis by (simp add: sample_point_def region)
  next
    case (Some kvs0)
    have "\<exists>x. map_of kvs0 band = Some (Num x) \<and> v = Num (g x)"
      if "map_of (map ?c kvs0) band = Some v" for band v
    proof -
      have "map_of (map ?c kvs0) band
              = map_option (\<lambda>v. case v of Num x \<Rightarrow> Num (g x) | w \<Rightarrow> w) (map_of kvs0 band)"
        by (induction kvs0) auto
      with that obtain w where w: "map_of kvs0 band = Some w"
        and v: "v = (case w of Num x \<Rightarrow> Num (g x) | w \<Rightarrow> w)"
        by auto
      from those_values_numbers [OF Some w] obtain x where "w = Num x" by blast
      with w v show ?thesis by simp
    qed
    with corrected Some show ?thesis by (simp add: sample_point_def region)
  qed
qed

lemma sample_point_corrected_twice:
  "list_all2
     (\<lambda>corrected_feature raw_feature. \<forall>band v.
        feature_properties corrected_feature band = Some v
        \<longrightarrow> (\<exists>x. feature_properties raw_feature band = Some (Num x) \<and> v = Num (x * k + a)))
     (sample_point (map_bands (\<lambda>x. x + a) (map_bands (\<lambda>x. x * k) img)) scale region)
     (sample_point img scale region)"
  unfolding map_bands_twice by (rule sample_point_corrected)

lemma list_all2_concat_map:
  assumes "\<And>x. x \<in> set xs \<Longrightarrow> list_all2 R (f x) (g x)"
  shows "list_all2 R (concat (map f xs)) (concat (map g xs))"
  using assms by (induction xs) (auto intro: list_all2_appendI)

lemma catalog_applies_linear_correction: "applies_linear_correction (catalog_service cat)"
  unfolding applies_linear_correction_def
proof (intro allI impI)
  fix im M A regions scale geometries corrected
  assume a: "features_getInfo (catalog_service cat)
               (SampleRegions (Add (Multiply im M) A) regions scale geometries) = Inr corrected"
  then obtain img k a where img: "eval_image cat im = Inr img" and M: "M = Num k" and A: "A = Num a"
    and fs: "features corrected
               = concat (map (sample_point (map_bands (\<lambda>x. x + a) (map_bands (\<lambda>x. x * k) img)) scale)
                   regions)"
    by (auto simp: catalog_service_def split: sum.splits val.splits)
  let ?raw = "\<lparr>features = concat (map (sample_point img scale) regions)\<rparr>"
  have "features_getInfo (catalog_service cat) (SampleRegions im regions scale geometries) = Inr ?raw"
    using img by (simp add: catalog_service_def)
  moreover have "list_all2
                   (\<lambda>corrected_feature raw_feature. \<forall>band v.
                      feature_properties corrected_feature band = Some v
                      \<longrightarrow> (\<exists>x. feature_properties raw_feature band = Some (Num x)
                                \<and> v = Num (x * k + a)))
                   (features corrected) (features ?raw)"
    unfolding fs by (simp add: list_all2_concat_map sample_point_corrected_twice)
  ultimately show "\<exists>k a raw.
               M = Num k \<and> A = Num a
               \<and> features_getInfo (catalog_service cat) (SampleRegions im regions scale geometries)
                   = Inr raw
               \<and> list_all2
                   (\<lambda>corrected_feature raw_feature. \<forall>band v.
                      feature_properties corrected_feature band = Some v
                      \<longrightarrow> (\<exists>x. feature_properties raw_feature band = Some (Num x)
                                \<and> v = Num (x * k + a)))
                   (features corrected) (features raw)"
    using M A by blast
qed

text \<open>
  C2. With a service that applies the linear correction: the rows of the table are the
  rows of image 0, then of image 1, and so on; for every matching image the coefficients
  \<open>M\<close> and \<open>A\<close> are the numbers under REFLECTANCE_MULT_BAND_2 and
  REFLECTANCE_ADD_BAND_2 in the metadata of that same image, and, row by row against the
  features of the sample of the image itself, the cell of every requested band is
  \<open>raw_value * M + A\<close>, where \<open>raw_value\<close> is the value of the band in the sample of the
  image. The same \<open>M\<close> and \<open>A\<close> serve all the bands of the image.
\<close>

theorem C2_band_values_linear_correction:
  fixes svc :: "('n::{times,plus}) service"
  assumes "applies_linear_correction svc"
      and "Landsat_Surface_Reflectance svc longitude latitude start_date end_date
             collection_address bands max_cloud_cover scale = Inr df"
      and "number_getInfo svc (Size (landsat_collection longitude latitude start_date end_date
             collection_address bands max_cloud_cover)) = Inr n"
      and "1 \<le> n"
      and "number_getInfo svc
             (ListSize (ToList (landsat_collection longitude latitude start_date end_date
                  collection_address bands max_cloud_cover)
                  (Size (landsat_collection longitude latitude start_date end_date
                     collection_address bands max_cloud_cover)))) = Inr m"
  shows "df_rows df
           = concat (map (image_rows svc (Point longitude latitude) bands scale
                (ToList (landsat_collection longitude latitude start_date end_date
                  collection_address bands max_cloud_cover)
                  (Size (landsat_collection longitude latitude start_date end_date
                     collection_address bands max_cloud_cover)))) [0..<m])
         \<and> (\<forall>i<m. \<exists>info M A raw.
               image_getInfo svc
                 (ImageOfListGet
                    (ToList (landsat_collection longitude latitude start_date end_date
                       collection_address bands max_cloud_cover)
                       (Size (landsat_collection longitude latitude start_date end_date
                          collection_address bands max_cloud_cover))) i) = Inr info
               \<and> image_properties info ''REFLECTANCE_MULT_BAND_2'' = Some (Num M)
               \<and> image_properties info ''REFLECTANCE_ADD_BAND_2'' = Some (Num A)
               \<and> features_getInfo svc
                   (SampleRegions
                      (ImageOfListGet
                         (ToList (landsat_collection longitude latitude start_date end_date
                            collection_address bands max_cloud_cover)
                            (Size (landsat_collection longitude latitude start_date end_date
                               collection_address bands max_cloud_cover))) i)
                      [Point longitude latitude] scale True) = Inr raw
               \<and> list_all2
                   (\<lambda>row raw_feature. \<forall>band \<in> set bands. \<exists>raw_value.
                      feature_properties raw_feature band = Some (Num raw_value)
                      \<and> cell_of df row band = Some (Num (raw_value * M + A)))
                   (image_rows svc (Point longitude latitude) bands scale
                      (ToList (landsat_collection longitude latitude start_date end_date
                         collection_address bands max_cloud_cover)
                         (Size (landsat_collection longitude latitude start_date end_date
                            collection_address bands max_cloud_cover))) i)
                   (features raw))"
proof -
  let ?c = "landsat_collection longitude latitude start_date end_date
                  collection_address bands max_cloud_cover"
  let ?il = "ToList ?c (Size ?c)"
  let ?p = "Point longitude latitude"
  from assms(4) have "n \<noteq> 0" by simp
  from nonempty_rows [OF assms(2,3) this refl] assms(5) have
    cols: "df_columns df = table_columns bands"
    and rows: "df_rows df = concat (map (image_rows svc ?p bands scale ?il) [0..<m])"
    and pass: "\<forall>i<m. \<exists>info date cloud_cover M A sampled.
                 image_pass svc ?p bands scale ?il i info date cloud_cover M A sampled"
    by auto
  have each: "\<exists>info M A raw.
               image_getInfo svc (ImageOfListGet ?il i) = Inr info
               \<and> image_properties info ''REFLECTANCE_MULT_BAND_2'' = Some (Num M)
               \<and> image_properties info ''REFLECTANCE_ADD_BAND_2'' = Some (Num A)
               \<and> features_getInfo svc (SampleRegions (ImageOfListGet ?il i) [?p] scale True) = Inr raw
               \<and> list_all2
                   (\<lambda>row raw_feature. \<forall>band \<in> set bands. \<exists>raw_value.
                      feature_properties raw_feature band = Some (Num raw_value)
                      \<and> cell_of df row band = Some (Num (raw_value * M + A)))
                   (image_rows svc ?p bands scale ?il i) (features raw)"
    if "i < m" for i
  proof -
    from pass that obtain info date cloud_cover Mv Av sampled where
      p: "image_pass svc ?p bands scale ?il i info date cloud_cover Mv Av sampled"
      by blast
    then have info: "image_getInfo svc (ImageOfListGet ?il i) = Inr info"
      and Mv: "image_properties info ''REFLECTANCE_MULT_BAND_2'' = Some Mv"
      and Av: "image_properties info ''REFLECTANCE_ADD_BAND_2'' = Some Av"
      and sampled: "features_getInfo svc
            (SampleRegions (Add (Multiply (ImageOfListGet ?il i) Mv) Av) [?p] scale True) = Inr sampled"
      unfolding image_pass_def by simp_all
    from assms(1) sampled obtain k a raw where
      k: "Mv = Num k" and a: "Av = Num a"
      and raw: "features_getInfo svc (SampleRegions (ImageOfListGet ?il i) [?p] scale True) = Inr raw"
      and rel: "list_all2
                   (\<lambda>corrected_feature raw_feature. \<forall>band v.
                      feature_properties corrected_feature band = Some v
                      \<longrightarrow> (\<exists>x. feature_properties raw_feature band = Some (Num x)
                                \<and> v = Num (x * k + a)))
                   (features sampled) (features raw)"
      unfolding applies_linear_correction_def by blast
    have "list_all2
            (\<lambda>f raw_feature. \<forall>band \<in> set bands. \<exists>raw_value.
               feature_properties raw_feature band = Some (Num raw_value)
               \<and> cell_of df (feature_row (Lst [Num longitude, Num latitude]) date cloud_cover bands f)
                    band = Some (Num (raw_value * k + a)))
            (features sampled) (features raw)"
      using rel
    proof (rule list.rel_mono_strong)
      fix f :: "'n feature_info" and raw_feature :: "'n feature_info"
      assume f: "f \<in> set (features sampled)"
        and r: "\<forall>band v. feature_properties f band = Some v
                  \<longrightarrow> (\<exists>x. feature_properties raw_feature band = Some (Num x) \<and> v = Num (x * k + a))"
      show "\<forall>band \<in> set bands. \<exists>raw_value.
               feature_properties raw_feature band = Some (Num raw_value)
               \<and> cell_of df (feature_row (Lst [Num longitude, Num latitude]) date cloud_cover bands f)
                    band = Some (Num (raw_value * k + a))"
      proof
        fix band assume band: "band \<in> set bands"
        from image_pass_bands [OF p f band] obtain v where v: "feature_properties f band = Some v"
          by blast
        with r obtain x where x: "feature_properties raw_feature band = Some (Num x)"
          "v = Num (x * k + a)" by blast
        have "band \<in> set (table_columns bands)" using band by (simp add: set_table_columns)
        from cell_of_feature_row [OF cols this] band v
        have "cell_of df (feature_row (Lst [Num longitude, Num latitude]) date cloud_cover bands f)
                band = Some v" by simp
        with x show "\<exists>raw_value.
               feature_properties raw_feature band = Some (Num raw_value)
               \<and> cell_of df (feature_row (Lst [Num longitude, Num latitude]) date cloud_cover bands f)
                    band = Some (Num (raw_value * k + a))"
          by blast
      qed
    qed
    then have "list_all2
                   (\<lambda>row raw_feature. \<forall>band \<in> set bands. \<exists>raw_value.
                      feature_properties raw_feature band = Some (Num raw_value)
                      \<and> cell_of df row band = Some (Num (raw_value * k + a)))
                   (image_rows svc ?p bands scale ?il i) (features raw)"
      unfolding image_pass_rows [OF p] by (simp add: list_all2_map1)
    with info Mv Av k a raw show ?thesis by blast
  qed
  from rows each show ?thesis by blast
qed

theorem C2_witness:
  "applies_linear_correction (catalog_service example_catalog)
   \<and> Landsat_Surface_Reflectance (catalog_service example_catalog) (- 122.431) 37.773
       ''2022-01-01'' ''2022-12-31'' default_collection_address default_bands 10 30
     = Inr example_table
   \<and> number_getInfo (catalog_service example_catalog)
       (Size (landsat_collection (- 122.431) 37.773 ''2022-01-01'' ''2022-12-31''
          default_collection_address default_bands 10)) = Inr 2
   \<and> (1::nat) \<le> 2
   \<and> number_getInfo (catalog_service example_catalog)
       (ListSize (ToList (landsat_collection (- 122.431) 37.773 ''2022-01-01'' ''2022-12-31''
          default_collection_address default_bands 10)
         (Size (landsat_collection (- 122.431) 37.773 ''2022-01-01'' ''2022-12-31''
          default_collection_address default_bands 10)))) = Inr 2
   \<and> (\<exists>info M A raw.
         image_getInfo (catalog_service example_catalog)
           (ImageOfListGet
              (ToList (landsat_collection (- 122.431) 37.773 ''2022-01-01'' ''2022-12-31''
                 default_collection_address default_bands 10)
                (Size (landsat_collection (- 122.431) 37.773 ''2022-01-01'' ''2022-12-31''
                 default_collection_address default_bands 10))) 0) = Inr info
         \<and> image_properties info ''REFLECTANCE_MULT_BAND_2'' = Some (Num M)
         \<and> image_properties info ''REFLECTANCE_ADD_BAND_2'' = Some (Num A)
         \<and> features_getInfo (catalog_service example_catalog)
             (SampleRegions
                (ImageOfListGet
                   (ToList (landsat_collection (- 122.431) 37.773 ''2022-01-01'' ''2022-12-31''
                      default_collection_address default_bands 10)
                     (Size (landsat_collection (- 122.431) 37.773 ''2022-01-01'' ''2022-12-31''
                      default_collection_address default_bands 10))) 0)
                [Point (- 122.431) 37.773] 30 True) = Inr raw
         \<and> list_all2
             (\<lambda>row raw_feature. \<forall>band \<in> set default_bands. \<exists>raw_value.
                feature_properties raw_feature band = Some (Num raw_value)
                \<and> cell_of example_table row band = Some (Num (raw_value * M + A)))
             (image_rows (catalog_service example_catalog) (Point (- 122.431) 37.773)
                default_bands 30
                (ToList (landsat_collection (- 122.431) 37.773 ''2022-01-01'' ''2022-12-31''
                   default_collection_address default_bands 10)
                  (Size (landsat_collection (- 122.431) 37.773 ''2022-01-01'' ''2022-12-31''
                   default_collection_address default_bands 10))) 0)
             (features raw))
   \<and> cell_of example_table (df_rows example_table ! 0) ''SR_B4''
       = Some (Num (10000 * 0.0000275 + (- 0.2)))"
proof -
  have le: "(1::nat) \<le> 2" by simp
  note contract = catalog_applies_linear_correction [of example_catalog]
  have cellv: "cell_of example_table (df_rows example_table ! 0) ''SR_B4''
       = Some (Num (10000 * 0.0000275 + (- 0.2)))"
    by (simp add: example_table_def cell_of_def)
  from C2_band_values_linear_correction [OF contract example_run example_size le example_list_size]
  have "\<forall>i<2. \<exists>info M A raw.
         image_getInfo (catalog_service example_catalog)
           (ImageOfListGet
              (ToList (landsat_collection (- 122.431) 37.773 ''2022-01-01'' ''2022-12-31''
                 default_collection_address default_bands 10)
                (Size (landsat_collection (- 122.431) 37.773 ''2022-01-01'' ''2022-12-31''
                 default_collection_address default_bands 10))) i) = Inr info
         \<and> image_properties info ''REFLECTANCE_MULT_BAND_2'' = Some (Num M)
         \<and> image_properties info ''REFLECTANCE_ADD_BAND_2'' = Some (Num A)
         \<and> features_getInfo (catalog_service example_catalog)
             (SampleRegions
                (ImageOfListGet
                   (ToList (landsat_collection (- 122.431) 37.773 ''2022-01-01'' ''2022-12-31''
                      default_collection_address default_bands 10)
                     (Size (landsat_collection (- 122.431) 37.773 ''2022-01-01'' ''2022-12-31''
                      default_collection_address default_bands 10))) i)
                [Point (- 122.431) 37.773] 30 True) = Inr raw
         \<and> list_all2
             (\<lambda>row raw_feature. \<forall>band \<in> set default_bands. \<exists>raw_value.
                feature_properties raw_feature band = Some (Num raw_value)
                \<and> cell_of example_table row band = Some (Num (raw_value * M + A)))
             (image_rows (catalog_service example_catalog) (Point (- 122.431) 37.773)
                default_bands 30
                (ToList (landsat_collection (- 122.431) 37.773 ''2022-01-01'' ''2022-12-31''
                   default_collection_address default_bands 10)
                  (Size (landsat_collection (- 122.431) 37.773 ''2022-01-01'' ''2022-12-31''
                   default_collection_address default_bands 10))) i)
             (features raw)"
    by blast
  then have first: "\<exists>info M A raw.
         image_getInfo (catalog_service example_catalog)
           (ImageOfListGet
              (ToList (landsat_collection (- 122.431) 37.773 ''2022-01-01'' ''2022-12-31''
                 default_collection_address default_bands 10)
                (Size (landsat_collection (- 122.431) 37.773 ''2022-01-01'' ''2022-12-31''
                 default_collection_address default_bands 10))) 0) = Inr info
         \<and> image_properties info ''REFLECTANCE_MULT_BAND_2'' = Some (Num M)
         \<and> image_properties info ''REFLECTANCE_ADD_BAND_2'' = Some (Num A)
         \<and> features_getInfo (catalog_service example_catalog)
             (SampleRegions
                (ImageOfListGet
                   (ToList (landsat_collection (- 122.431) 37.773 ''2022-01-01'' ''2022-12-31''
                      default_collection_address default_bands 10)
                     (Size (landsat_collection (- 122.431) 37.773 ''2022-01-01'' ''2022-12-31''
                      default_collection_address default_bands 10))) 0)
                [Point (- 122.431) 37.773] 30 True) = Inr raw
         \<and> list_all2
             (\<lambda>row raw_feature. \<forall>band \<in> set default_bands. \<exists>raw_value.
                feature_properties raw_feature band = Some (Num raw_value)
                \<and> cell_of example_table row band = Some (Num (raw_value * M + A)))
             (image_rows (catalog_service example_catalog) (Point (- 122.431) 37.773)
                default_bands 30
                (ToList (landsat_collection (- 122.431) 37.773 ''2022-01-01'' ''2022-12-31''
                   default_collection_address default_bands 10)
                  (Size (landsat_collection (- 122.431) 37.773 ''2022-01-01'' ''2022-12-31''
                   default_collection_address default_bands 10))) 0)
             (features raw)"
    by (rule allE [of _ 0]) simp
  from contract example_run example_size le example_list_size first cellv
  show ?thesis by blast
qed

lemma catalog_honours_filter: "honours_cloud_cover_filter (catalog_service cat)"
  unfolding honours_cloud_cover_filter_def
proof (intro allI impI)
  fix c threshold count i info
  assume a: "image_getInfo (catalog_service cat)
          (ImageOfListGet (ToList (FilterMetadata c ''CLOUD_COVER'' ''less_than'' threshold) count) i)
          = Inr info"
  then obtain imgs where l: "eval_list cat (ToList (FilterMetadata c ''CLOUD_COVER'' ''less_than'' threshold) count) = Inr imgs"
    and i: "i < length imgs" and info: "image_properties info = metadata (imgs ! i)"
    by (auto simp: catalog_service_def split: sum.splits if_splits)
  from l obtain all k where
    all: "eval_collection cat c = Inr all"
    and imgs: "imgs = take k (filter (\<lambda>img. case metadata img ''CLOUD_COVER'' of
                                   Some (Num x) \<Rightarrow> x < threshold | _ \<Rightarrow> False) all)"
    by (auto split: sum.splits)
  from i have "imgs ! i \<in> set imgs" by simp
  with imgs have "imgs ! i \<in> set (filter (\<lambda>img. case metadata img ''CLOUD_COVER'' of
                                   Some (Num x) \<Rightarrow> x < threshold | _ \<Rightarrow> False) all)"
    by (auto dest: in_set_takeD)
  then have "case metadata (imgs ! i) ''CLOUD_COVER'' of
                                   Some (Num x) \<Rightarrow> x < threshold | _ \<Rightarrow> False"
    by simp
  with info show "\<exists>x. image_properties info ''CLOUD_COVER'' = Some (Num x) \<and> x < threshold"
    by (auto split: option.splits val.splits)
qed

text \<open>
  C4. With a service that honours the cloud-cover filter: in every row of a table returned
  for at least one matching image the CloudCover cell is a number below, hence not above,
  \<open>max_cloud_cover\<close>. (A requested band named CloudCover would give two columns that
  label, and the append of line 115 then raises: no table is returned.)
\<close>

theorem C4_cloud_cover_below_threshold:
  fixes svc :: "('n::preorder) service"
  assumes "honours_cloud_cover_filter svc"
      and "Landsat_Surface_Reflectance svc longitude latitude start_date end_date
             collection_address bands max_cloud_cover scale = Inr df"
      and "number_getInfo svc
             (Size (landsat_collection longitude latitude start_date end_date
                collection_address bands max_cloud_cover)) = Inr n"
      and "1 \<le> n"
  shows "\<forall>row \<in> set (df_rows df). \<exists>cloud_cover.
           cell_of df row ''CloudCover'' = Some (Num cloud_cover)
           \<and> cloud_cover < max_cloud_cover \<and> cloud_cover \<le> max_cloud_cover"
proof
  fix row assume row: "row \<in> set (df_rows df)"
  let ?c = "landsat_collection longitude latitude start_date end_date
                  collection_address bands max_cloud_cover"
  let ?il = "ToList ?c (Size ?c)"
  let ?p = "Point longitude latitude"
  from assms(4) have "n \<noteq> 0" by simp
  from nonempty_rows [OF assms(2,3) this refl] obtain m where
    cols: "df_columns df = table_columns bands"
    and rows: "df_rows df = concat (map (image_rows svc ?p bands scale ?il) [0..<m])"
    and pass: "\<forall>i<m. \<exists>info date cloud_cover M A sampled.
                 image_pass svc ?p bands scale ?il i info date cloud_cover M A sampled"
    by auto
  from row rows row_origin [OF _ pass, of row] obtain i info date cc M A sampled f where
    p: "image_pass svc ?p bands scale ?il i info date cc M A sampled"
    and f: "f \<in> set (features sampled)"
    and row_eq: "row = feature_row (Lst [Num longitude, Num latitude]) date cc bands f"
    by auto
  from distinct_table_columns(3) [OF image_pass_distinct [OF p f]]
  have nb: "''CloudCover'' \<notin> set bands" .
  from p have info: "image_getInfo svc (ImageOfListGet ?il i) = Inr info"
    and cc: "image_properties info ''CLOUD_COVER'' = Some cc"
    unfolding image_pass_def by simp_all
  from assms(1) info obtain x where "image_properties info ''CLOUD_COVER'' = Some (Num x)"
    "x < max_cloud_cover"
    unfolding honours_cloud_cover_filter_def landsat_collection_def by blast
  with cc have x: "cc = Num x" "x < max_cloud_cover" by simp_all
  have "''CloudCover'' \<in> set (table_columns bands)" by (simp add: set_table_columns)
  from cell_of_feature_row [OF cols this] nb
  have "cell_of df row ''CloudCover'' = Some cc" unfolding row_eq by simp
  with x show "\<exists>cloud_cover.
           cell_of df row ''CloudCover'' = Some (Num cloud_cover)
           \<and> cloud_cover < max_cloud_cover \<and> cloud_cover \<le> max_cloud_cover"
    by (auto intro: less_imp_le)
qed

theorem C4_witness:
  "honours_cloud_cover_filter (catalog_service example_catalog)
   \<and> Landsat_Surface_Reflectance (catalog_service example_catalog) (- 122.431) 37.773
       ''2022-01-01'' ''2022-12-31'' default_collection_address default_bands 10 30
     = Inr example_table
   \<and> number_getInfo (catalog_service example_catalog)
       (Size (landsat_collection (- 122.431) 37.773 ''2022-01-01'' ''2022-12-31''
          default_collection_address default_bands 10)) = Inr 2
   \<and> (1::nat) \<le> 2
   \<and> (\<exists>cloud_cover.
         cell_of example_table (df_rows example_table ! 1) ''CloudCover'' = Some (Num cloud_cover)
         \<and> cloud_cover < 10 \<and> cloud_cover \<le> 10)
   \<and> cell_of example_table (df_rows example_table ! 1) ''CloudCover'' = Some (Num 7)"
proof -
  have le: "(1::nat) \<le> 2" by simp
  have row: "df_rows example_table ! 1 \<in> set (df_rows example_table)"
    by (simp add: example_table_def)
  note honours = catalog_honours_filter [of example_catalog]
  from C4_cloud_cover_below_threshold [OF honours example_run example_size le] row
  have derived: "\<exists>cloud_cover.
         cell_of example_table (df_rows example_table ! 1) ''CloudCover'' = Some (Num cloud_cover)
         \<and> cloud_cover < 10 \<and> cloud_cover \<le> 10"
    by blast
  have "cell_of example_table (df_rows example_table ! 1) ''CloudCover'' = Some (Num 7)"
    by (simp add: example_table_def cell_of_def)
  with honours example_run example_size le derived show ?thesis by blast
qed

subsection \<open>Failures and the calls to the service\<close>

lemma getInfo_Inl:
  "getInfo svc (NumberRequest q) = Inl e \<longleftrightarrow> number_getInfo svc q = Inl e"
  "getInfo svc (ImageRequest qi) = Inl e \<longleftrightarrow> image_getInfo svc qi = Inl e"
  "getInfo svc (FeaturesRequest qf) = Inl e \<longleftrightarrow> features_getInfo svc qf = Inl e"
  by (auto simp: getInfo_def split: sum.splits)

lemma getInfo_eq:
  "getInfo svc1 (NumberRequest q) = getInfo svc2 (NumberRequest q)
     \<longleftrightarrow> number_getInfo svc1 q = number_getInfo svc2 q"
  "getInfo svc1 (ImageRequest qi) = getInfo svc2 (ImageRequest qi)
     \<longleftrightarrow> image_getInfo svc1 qi = image_getInfo svc2 qi"
  "getInfo svc1 (FeaturesRequest qf) = getInfo svc2 (FeaturesRequest qf)
     \<longleftrightarrow> features_getInfo svc1 qf = features_getInfo svc2 qf"
  by (auto simp: getInfo_def split: sum.splits)

lemma getitem_Inl: "getitem properties key = Inl e \<longleftrightarrow> properties key = None \<and> e = KeyError key"
  by (auto simp: getitem_def split: option.splits)

lemma image_requests_failure:
  assumes "r \<in> set (image_requests svc p scale il i)" and "getInfo svc r = Inl e"
  shows "process_image svc p bands scale il i df = Inl e"
  using assms unfolding image_requests_def process_image_def Let_def
  by (auto simp: getInfo_Inl split: sum.splits)

lemma loop_requests_failure:
  assumes "r \<in> set (loop_requests svc p bands scale il is df)" and "getInfo svc r = Inl e"
  shows "images_loop svc p bands scale il is df = Inl e"
  using assms
proof (induction "is" arbitrary: df)
  case Nil
  then show ?case by simp
next
  case (Cons i rest)
  show ?case
  proof (cases "r \<in> set (image_requests svc p scale il i)")
    case True
    from image_requests_failure [OF True Cons.prems(2)] show ?thesis by simp
  next
    case False
    show ?thesis
    proof (cases "process_image svc p bands scale il i df")
      case (Inl e')
      with Cons.prems(1) False show ?thesis by simp
    next
      case (Inr df')
      with Cons.prems(1) False have "r \<in> set (loop_requests svc p bands scale il rest df')"
        by simp
      from Cons.IH [OF this Cons.prems(2)] Inr show ?thesis by simp
    qed
  qed
qed

lemma requests_issued_failure:
  assumes "r \<in> set (requests_issued svc longitude latitude start_date end_date collection_address
                       bands max_cloud_cover scale)"
      and "getInfo svc r = Inl e"
  shows "Landsat_Surface_Reflectance svc longitude latitude start_date end_date collection_address
           bands max_cloud_cover scale = Inl e"
  using assms unfolding requests_issued_def Landsat_Surface_Reflectance_def Let_def
  by (auto simp: getInfo_Inl split: sum.splits if_splits dest: loop_requests_failure)


lemma process_image_missing_field:
  assumes "image_getInfo svc (ImageOfListGet il i) = Inr info"
      and "key \<in> set metadata_fields" and "image_properties info key = None"
  shows "\<exists>k \<in> set metadata_fields. image_properties info k = None
           \<and> (\<forall>df. process_image svc p bands scale il i df = Inl (KeyError k))"
proof -
  let ?P = "image_properties info"
  consider "?P ''DATE_ACQUIRED'' = None"
    | "?P ''DATE_ACQUIRED'' \<noteq> None" "?P ''CLOUD_COVER'' = None"
    | "?P ''DATE_ACQUIRED'' \<noteq> None" "?P ''CLOUD_COVER'' \<noteq> None"
      "?P ''REFLECTANCE_MULT_BAND_2'' = None"
    | "?P ''DATE_ACQUIRED'' \<noteq> None" "?P ''CLOUD_COVER'' \<noteq> None"
      "?P ''REFLECTANCE_MULT_BAND_2'' \<noteq> None" "?P ''REFLECTANCE_ADD_BAND_2'' = None"
    using assms(2,3) by (auto simp: metadata_fields_def)
  then show ?thesis
  proof cases
    case 1
    with assms(1) have "\<forall>df. process_image svc p bands scale il i df = Inl (KeyError ''DATE_ACQUIRED'')"
      by (simp add: process_image_def getitem_def)
    with 1 show ?thesis by (auto simp: metadata_fields_def)
  next
    case 2
    with assms(1) have "\<forall>df. process_image svc p bands scale il i df = Inl (KeyError ''CLOUD_COVER'')"
      by (auto simp: process_image_def getitem_def)
    with 2 show ?thesis by (auto simp: metadata_fields_def)
  next
    case 3
    with assms(1) have
      "\<forall>df. process_image svc p bands scale il i df = Inl (KeyError ''REFLECTANCE_MULT_BAND_2'')"
      by (auto simp: process_image_def getitem_def)
    with 3 show ?thesis by (auto simp: metadata_fields_def)
  next
    case 4
    with assms(1) have
      "\<forall>df. process_image svc p bands scale il i df = Inl (KeyError ''REFLECTANCE_ADD_BAND_2'')"
      by (auto simp: process_image_def getitem_def)
    with 4 show ?thesis by (auto simp: metadata_fields_def)
  qed
qed

lemma loop_requests_reached:
  assumes "ImageRequest (ImageOfListGet il i) \<in> set (loop_requests svc p bands scale il is df)"
      and "\<forall>df. process_image svc p bands scale il i df = Inl e"
  shows "images_loop svc p bands scale il is df = Inl e"
  using assms(1)
proof (induction "is" arbitrary: df)
  case Nil
  then show ?case by simp
next
  case (Cons j rest)
  show ?case
  proof (cases "j = i")
    case True
    with assms(2) show ?thesis by simp
  next
    case False
    then have "ImageRequest (ImageOfListGet il i) \<notin> set (image_requests svc p scale il j)"
      by (auto simp: image_requests_def Let_def split: sum.splits)
    with Cons.prems have in_rest: "ImageRequest (ImageOfListGet il i)
        \<in> set (case process_image svc p bands scale il j df of
                 Inl e \<Rightarrow> [] | Inr df' \<Rightarrow> loop_requests svc p bands scale il rest df')"
      by simp
    show ?thesis
    proof (cases "process_image svc p bands scale il j df")
      case (Inl e')
      with in_rest show ?thesis by simp
    next
      case (Inr df')
      with in_rest have "ImageRequest (ImageOfListGet il i)
                           \<in> set (loop_requests svc p bands scale il rest df')" by simp
      from Cons.IH [OF this] Inr show ?thesis by simp
    qed
  qed
qed

lemma Landsat_missing_field:
  assumes "ImageRequest (ImageOfListGet
              (ToList (landsat_collection longitude latitude start_date end_date
                  collection_address bands max_cloud_cover)
                  (Size (landsat_collection longitude latitude start_date end_date
                     collection_address bands max_cloud_cover))) i)
             \<in> set (requests_issued svc longitude latitude start_date end_date collection_address
                       bands max_cloud_cover scale)"
      and "image_getInfo svc (ImageOfListGet
              (ToList (landsat_collection longitude latitude start_date end_date
                  collection_address bands max_cloud_cover)
                  (Size (landsat_collection longitude latitude start_date end_date
                     collection_address bands max_cloud_cover))) i) = Inr info"
      and "key \<in> set metadata_fields" and "image_properties info key = None"
  shows "\<exists>k \<in> set metadata_fields. image_properties info k = None
           \<and> Landsat_Surface_Reflectance svc longitude latitude start_date end_date
               collection_address bands max_cloud_cover scale = Inl (KeyError k)"
proof -
  let ?il = "ToList (landsat_collection longitude latitude start_date end_date
                  collection_address bands max_cloud_cover)
                  (Size (landsat_collection longitude latitude start_date end_date
                     collection_address bands max_cloud_cover))"
  from process_image_missing_field [OF assms(2-4)] obtain k where
    k: "k \<in> set metadata_fields" "image_properties info k = None"
    and fails: "\<forall>df. process_image svc (Point longitude latitude) bands scale ?il i df
                   = Inl (KeyError k)"
    by blast
  let ?c = "landsat_collection longitude latitude start_date end_date
             collection_address bands max_cloud_cover"
  have distinct: "ImageRequest (ImageOfListGet ?il i) \<noteq> NumberRequest q" for q
    by simp
  obtain n where n: "number_getInfo svc (Size ?c) = Inr n" "n \<noteq> 0"
  proof (cases "number_getInfo svc (Size ?c)")
    case (Inl e')
    with assms(1) show ?thesis by (simp add: requests_issued_def Let_def)
  next
    case (Inr n)
    with assms(1) have "n \<noteq> 0" by (auto simp: requests_issued_def Let_def split: if_splits)
    with Inr that show ?thesis by blast
  qed
  obtain m where m: "number_getInfo svc (ListSize ?il) = Inr m"
  proof (cases "number_getInfo svc (ListSize ?il)")
    case (Inl e')
    with assms(1) n show ?thesis by (simp add: requests_issued_def Let_def)
  next
    case (Inr m)
    with that show ?thesis by blast
  qed
  from assms(1) n m have reached: "ImageRequest (ImageOfListGet ?il i)
        \<in> set (loop_requests svc (Point longitude latitude) bands scale ?il [0..<m]
                 (DataFrame (table_columns bands)))"
    by (simp add: requests_issued_def Let_def)
  from loop_requests_reached [OF reached fails] n m
  have "Landsat_Surface_Reflectance svc longitude latitude start_date end_date
               collection_address bands max_cloud_cover scale = Inl (KeyError k)"
    by (simp add: Landsat_Surface_Reflectance_def Let_def)
  with k show ?thesis by blast
qed

lemma failing_request:
  "FeaturesRequest
     (SampleRegions
        (Add (Multiply
                (ImageOfListGet
                   (ToList (landsat_collection (- 122.431) 37.773 ''2022-01-01'' ''2022-12-31''
                              default_collection_address default_bands 10)
                      (Size (landsat_collection (- 122.431) 37.773 ''2022-01-01'' ''2022-12-31''
                               default_collection_address default_bands 10))) 0)
                (Num 0.0000275))
           (Num (- 0.2)))
        [Point (- 122.431) 37.773] 30 True)
   \<in> set (requests_issued failing_service (- 122.431) 37.773 ''2022-01-01'' ''2022-12-31''
            default_collection_address default_bands 10 30)"
  by code_simp

lemma incomplete_request:
  "ImageRequest
     (ImageOfListGet
        (ToList (landsat_collection (- 122.431) 37.773 ''2022-01-01'' ''2022-12-31''
                   default_collection_address default_bands 10)
           (Size (landsat_collection (- 122.431) 37.773 ''2022-01-01'' ''2022-12-31''
                    default_collection_address default_bands 10))) 0)
   \<in> set (requests_issued (catalog_service incomplete_catalog) (- 122.431) 37.773
            ''2022-01-01'' ''2022-12-31'' default_collection_address default_bands 10 30)"
  by code_simp

lemma incomplete_info:
  "image_getInfo (catalog_service incomplete_catalog)
     (ImageOfListGet
        (ToList (landsat_collection (- 122.431) 37.773 ''2022-01-01'' ''2022-12-31''
                   default_collection_address default_bands 10)
           (Size (landsat_collection (- 122.431) 37.773 ''2022-01-01'' ''2022-12-31''
                    default_collection_address default_bands 10))) 0)
   = Inr \<lparr>image_properties = metadata incomplete_image\<rparr>"
  by (simp add: catalog_service_def landsat_collection_def incomplete_catalog_def
      incomplete_image_def select_bands_def default_bands_def)

text \<open>
  C8. The function handles no failure raised by the service. (1) When a call to the
  service that the function makes raises (authentication, network, unknown collection),
  the function raises that same error: it is not caught, not turned into another error
  and not replaced by a result. (2) When the metadata of an image the loop reaches lacks
  one of the four properties the body reads, the function raises the KeyError of a
  property that is missing.
\<close>

theorem C8_errors_propagate:
  "(\<forall>r e. r \<in> set (requests_issued svc longitude latitude start_date end_date
                       collection_address bands max_cloud_cover scale)
           \<longrightarrow> getInfo svc r = Inl e
           \<longrightarrow> Landsat_Surface_Reflectance svc longitude latitude start_date end_date
                 collection_address bands max_cloud_cover scale = Inl e)
   \<and> (\<forall>i info key.
          ImageRequest (ImageOfListGet
              (ToList (landsat_collection longitude latitude start_date end_date
                  collection_address bands max_cloud_cover)
                  (Size (landsat_collection longitude latitude start_date end_date
                     collection_address bands max_cloud_cover))) i)
             \<in> set (requests_issued svc longitude latitude start_date end_date
                       collection_address bands max_cloud_cover scale)
          \<longrightarrow> image_getInfo svc (ImageOfListGet
              (ToList (landsat_collection longitude latitude start_date end_date
                  collection_address bands max_cloud_cover)
                  (Size (landsat_collection longitude latitude start_date end_date
                     collection_address bands max_cloud_cover))) i) = Inr info
          \<longrightarrow> key \<in> set metadata_fields
          \<longrightarrow> image_properties info key = None
          \<longrightarrow> (\<exists>k \<in> set metadata_fields. image_properties info k = None
                 \<and> Landsat_Surface_Reflectance svc longitude latitude start_date end_date
                     collection_address bands max_cloud_cover scale = Inl (KeyError k)))"
  using requests_issued_failure [of _ svc longitude latitude start_date end_date
      collection_address bands max_cloud_cover scale]
    Landsat_missing_field [of longitude latitude start_date end_date
      collection_address bands max_cloud_cover _ svc scale]
  by blast

theorem C8_witness:
  "FeaturesRequest
     (SampleRegions
        (Add (Multiply
                (ImageOfListGet
                   (ToList (landsat_collection (- 122.431) 37.773 ''2022-01-01'' ''2022-12-31''
                              default_collection_address default_bands 10)
                      (Size (landsat_collection (- 122.431) 37.773 ''2022-01-01'' ''2022-12-31''
                               default_collection_address default_bands 10))) 0)
                (Num 0.0000275))
           (Num (- 0.2)))
        [Point (- 122.431) 37.773] 30 True)
   \<in> set (requests_issued failing_service (- 122.431) 37.773 ''2022-01-01'' ''2022-12-31''
            default_collection_address default_bands 10 30)
   \<and> getInfo failing_service
       (FeaturesRequest
         (SampleRegions
            (Add (Multiply
                    (ImageOfListGet
                       (ToList (landsat_collection (- 122.431) 37.773 ''2022-01-01'' ''2022-12-31''
                                  default_collection_address default_bands 10)
                          (Size (landsat_collection (- 122.431) 37.773 ''2022-01-01'' ''2022-12-31''
                                   default_collection_address default_bands 10))) 0)
                    (Num 0.0000275))
               (Num (- 0.2)))
            [Point (- 122.431) 37.773] 30 True))
     = Inl (EEException ''Computation timed out.'')
   \<and> Landsat_Surface_Reflectance failing_service (- 122.431) 37.773 ''2022-01-01'' ''2022-12-31''
       default_collection_address default_bands 10 30
     = Inl (EEException ''Computation timed out.'')
   \<and> ''REFLECTANCE_ADD_BAND_2'' \<in> set metadata_fields
   \<and> metadata incomplete_image ''REFLECTANCE_ADD_BAND_2'' = None
   \<and> Landsat_Surface_Reflectance (catalog_service incomplete_catalog) (- 122.431) 37.773
       ''2022-01-01'' ''2022-12-31'' default_collection_address default_bands 10 30
     = Inl (KeyError ''REFLECTANCE_ADD_BAND_2'')"
proof -
  let ?r = "FeaturesRequest
     (SampleRegions
        (Add (Multiply
                (ImageOfListGet
                   (ToList (landsat_collection (- 122.431) 37.773 ''2022-01-01'' ''2022-12-31''
                              default_collection_address default_bands 10)
                      (Size (landsat_collection (- 122.431) 37.773 ''2022-01-01'' ''2022-12-31''
                               default_collection_address default_bands 10))) 0)
                (Num 0.0000275))
           (Num (- 0.2)))
        [Point (- 122.431) 37.773] 30 True)"
  have fails: "getInfo failing_service ?r = Inl (EEException ''Computation timed out.'')"
    by (simp add: getInfo_def failing_service_def)
  note thm1 = C8_errors_propagate [of failing_service "- 122.431" "37.773" "''2022-01-01''"
      "''2022-12-31''" default_collection_address default_bands 10 30]
  from thm1 failing_request fails
  have first: "Landsat_Surface_Reflectance failing_service (- 122.431) 37.773 ''2022-01-01''
       ''2022-12-31'' default_collection_address default_bands 10 30
     = Inl (EEException ''Computation timed out.'')"
    by blast
  have key: "''REFLECTANCE_ADD_BAND_2'' \<in> set metadata_fields"
    by (simp add: metadata_fields_def)
  have none: "metadata incomplete_image ''REFLECTANCE_ADD_BAND_2'' = None"
    by (simp add: incomplete_image_def)
  then have none': "image_properties \<lparr>image_properties = metadata incomplete_image\<rparr>
                      ''REFLECTANCE_ADD_BAND_2'' = None"
    by simp
  note thm2 = C8_errors_propagate [of "catalog_service incomplete_catalog" "- 122.431" "37.773"
      "''2022-01-01''" "''2022-12-31''" default_collection_address default_bands 10 30]
  from thm2 incomplete_request incomplete_info key none'
  have "\<exists>k \<in> set metadata_fields.
          image_properties \<lparr>image_properties = metadata incomplete_image\<rparr> k = None
          \<and> Landsat_Surface_Reflectance (catalog_service incomplete_catalog) (- 122.431) 37.773
              ''2022-01-01'' ''2022-12-31'' default_collection_address default_bands 10 30
            = Inl (KeyError k)"
    by blast
  then have second: "Landsat_Surface_Reflectance (catalog_service incomplete_catalog) (- 122.431)
       37.773 ''2022-01-01'' ''2022-12-31'' default_collection_address default_bands 10 30
     = Inl (KeyError ''REFLECTANCE_ADD_BAND_2'')"
    by (auto simp: metadata_fields_def incomplete_image_def)
  from failing_request fails first key none second show ?thesis by blast
qed

subsection \<open>Determinism\<close>

lemma process_image_cong:
  assumes "\<forall>r \<in> set (image_requests svc1 p scale il i). getInfo svc1 r = getInfo svc2 r"
  shows "process_image svc1 p bands scale il i df = process_image svc2 p bands scale il i df"
proof -
  from assms have info: "image_getInfo svc1 (ImageOfListGet il i) = image_getInfo svc2 (ImageOfListGet il i)"
    by (simp add: image_requests_def Let_def getInfo_eq)
  show ?thesis
  proof (cases "image_getInfo svc1 (ImageOfListGet il i)")
    case (Inl e)
    moreover from Inl info have "image_getInfo svc2 (ImageOfListGet il i) = Inl e" by simp
    ultimately show ?thesis by (simp add: process_image_def)
  next
    case (Inr i1)
    moreover from Inr info have "image_getInfo svc2 (ImageOfListGet il i) = Inr i1" by simp
    ultimately show ?thesis
      using assms unfolding process_image_def image_requests_def Let_def
      by (auto simp: getInfo_eq split: sum.splits)
  qed
qed

lemma image_requests_cong:
  assumes "\<forall>r \<in> set (image_requests svc1 p scale il i). getInfo svc1 r = getInfo svc2 r"
  shows "image_requests svc1 p scale il i = image_requests svc2 p scale il i"
proof -
  from assms have "image_getInfo svc1 (ImageOfListGet il i) = image_getInfo svc2 (ImageOfListGet il i)"
    by (simp add: image_requests_def Let_def getInfo_eq)
  then show ?thesis by (simp add: image_requests_def)
qed

lemma images_loop_cong:
  assumes "\<forall>r \<in> set (loop_requests svc1 p bands scale il is df). getInfo svc1 r = getInfo svc2 r"
  shows "images_loop svc1 p bands scale il is df = images_loop svc2 p bands scale il is df"
  using assms
proof (induction "is" arbitrary: df)
  case Nil
  then show ?case by simp
next
  case (Cons i rest)
  from Cons.prems have here: "\<forall>r \<in> set (image_requests svc1 p scale il i). getInfo svc1 r = getInfo svc2 r"
    by simp
  note same = process_image_cong [OF here, of bands df]
  show ?case
  proof (cases "process_image svc1 p bands scale il i df")
    case (Inl e)
    moreover from Inl same have "process_image svc2 p bands scale il i df = Inl e" by simp
    ultimately show ?thesis by simp
  next
    case (Inr df')
    moreover from Inr same have "process_image svc2 p bands scale il i df = Inr df'" by simp
    moreover from Inr Cons.prems have "\<forall>r \<in> set (loop_requests svc1 p bands scale il rest df').
                            getInfo svc1 r = getInfo svc2 r"
      by simp
    ultimately show ?thesis using Cons.IH [of df'] by simp
  qed
qed

lemma example_requests:
  "requests_issued (catalog_service example_catalog) (- 122.431) 37.773 ''2022-01-01''
     ''2022-12-31'' default_collection_address default_bands 10 30
   = (let c = landsat_collection (- 122.431) 37.773 ''2022-01-01'' ''2022-12-31''
                default_collection_address default_bands 10;
          il = ToList c (Size c)
      in [NumberRequest (Size c), NumberRequest (ListSize il),
          ImageRequest (ImageOfListGet il 0),
          FeaturesRequest (SampleRegions
             (Add (Multiply (ImageOfListGet il 0) (Num 0.0000275)) (Num (- 0.2)))
             [Point (- 122.431) 37.773] 30 True),
          ImageRequest (ImageOfListGet il 1),
          FeaturesRequest (SampleRegions
             (Add (Multiply (ImageOfListGet il 1) (Num 0.0000275)) (Num (- 0.2)))
             [Point (- 122.431) 37.773] 30 True)])"
  by code_simp

lemma other_service_agrees:
  "\<forall>r \<in> set (requests_issued (catalog_service example_catalog) (- 122.431) 37.773 ''2022-01-01''
               ''2022-12-31'' default_collection_address default_bands 10 30).
     getInfo (catalog_service example_catalog) r = getInfo other_service r"
  unfolding example_requests Let_def
  by (simp add: getInfo_def other_service_def landsat_collection_def)

text \<open>
  C10. The result is a function of the arguments and of the answers of the service: when
  a second service gives, to every request that the function sends to the first one, the
  same answer as the first, the function returns the same table, or raises the same
  error, with both.
\<close>

theorem C10_deterministic_in_the_responses:
  assumes "\<forall>r \<in> set (requests_issued svc1 longitude latitude start_date end_date
                        collection_address bands max_cloud_cover scale).
             getInfo svc1 r = getInfo svc2 r"
  shows "Landsat_Surface_Reflectance svc1 longitude latitude start_date end_date
           collection_address bands max_cloud_cover scale
         = Landsat_Surface_Reflectance svc2 longitude latitude start_date end_date
             collection_address bands max_cloud_cover scale"
proof -
  let ?c = "landsat_collection longitude latitude start_date end_date
             collection_address bands max_cloud_cover"
  let ?il = "ToList ?c (Size ?c)"
  from assms have size: "number_getInfo svc1 (Size ?c) = number_getInfo svc2 (Size ?c)"
    by (simp add: requests_issued_def Let_def getInfo_eq)
  show ?thesis
  proof (cases "number_getInfo svc1 (Size ?c)")
    case (Inl e)
    moreover from Inl size have "number_getInfo svc2 (Size ?c) = Inl e" by simp
    ultimately show ?thesis by (simp add: Landsat_Surface_Reflectance_def Let_def)
  next
    case (Inr n)
    from Inr size have n2: "number_getInfo svc2 (Size ?c) = Inr n" by simp
    show ?thesis
    proof (cases "n = 0")
      case True
      with n2 Inr show ?thesis by (simp add: Landsat_Surface_Reflectance_def Let_def)
    next
      case False
      with assms Inr have lsize: "number_getInfo svc1 (ListSize ?il) = number_getInfo svc2 (ListSize ?il)"
        by (simp add: requests_issued_def Let_def getInfo_eq)
      show ?thesis
      proof (cases "number_getInfo svc1 (ListSize ?il)")
        case (Inl e)
        moreover from Inl lsize have "number_getInfo svc2 (ListSize ?il) = Inl e" by simp
        ultimately show ?thesis using n2 Inr False
          by (simp add: Landsat_Surface_Reflectance_def Let_def)
      next
        case m: (Inr m)
        from m lsize have m2: "number_getInfo svc2 (ListSize ?il) = Inr m" by simp
        from m assms Inr False have
          "\<forall>r \<in> set (loop_requests svc1 (Point longitude latitude) bands scale ?il [0..<m]
                        (DataFrame (table_columns bands))). getInfo svc1 r = getInfo svc2 r"
          by (simp add: requests_issued_def Let_def)
        from images_loop_cong [OF this] n2 m2 Inr False m show ?thesis
          by (simp add: Landsat_Surface_Reflectance_def Let_def)
      qed
    qed
  qed
qed

theorem C10_witness:
  "Landsat_Surface_Reflectance (catalog_service example_catalog) (- 122.431) 37.773
     ''2022-01-01'' ''2022-12-31'' default_collection_address default_bands 10 30
   = Landsat_Surface_Reflectance other_service (- 122.431) 37.773
       ''2022-01-01'' ''2022-12-31'' default_collection_address default_bands 10 30
   \<and> Landsat_Surface_Reflectance other_service (- 122.431) 37.773
       ''2022-01-01'' ''2022-12-31'' default_collection_address default_bands 10 30
     = Inr example_table
   \<and> number_getInfo other_service (Size (ImageCollection ''COPERNICUS/S2_SR''))
       \<noteq> number_getInfo (catalog_service example_catalog) (Size (ImageCollection ''COPERNICUS/S2_SR''))"
proof -
  have differ: "number_getInfo other_service (Size (ImageCollection ''COPERNICUS/S2_SR''))
       \<noteq> number_getInfo (catalog_service example_catalog) (Size (ImageCollection ''COPERNICUS/S2_SR''))"
    by (simp add: other_service_def catalog_service_def example_catalog_def
        default_collection_address_def)
  from C10_deterministic_in_the_responses [OF other_service_agrees] example_run differ
  show ?thesis by simp
qed

subsection \<open>The arguments after the call\<close>

lemma new_list_frame:
  assumes "new_list xs h = (l, h')"
  shows "l = length h" and "length h' = Suc (length h)" and "h' ! l = xs"
    and "a < length h \<Longrightarrow> h' ! a = h ! a"
  using assms by (auto simp: new_list_def nth_append)

lemma list_add_frame:
  assumes "list_add a b h = (l, h')"
  shows "l = length h" and "length h' = Suc (length h)" and "h' ! l = h ! a @ h ! b"
    and "c < length h \<Longrightarrow> h' ! c = h ! c"
  using assms unfolding list_add_def by (auto dest: new_list_frame)

lemma columns_list_frame:
  assumes "columns_list bands h = (columns, h')" and "bands < length h"
  shows "length h < length h'" and "a < length h \<Longrightarrow> h' ! a = h ! a"
    and "h' ! columns = table_columns (h ! bands)"
proof -
  obtain l1 h1 where s1: "new_list [''Date'', ''Coordinate''] h = (l1, h1)" by force
  obtain l2 h2 where s2: "list_add l1 bands h1 = (l2, h2)" by force
  obtain l3 h3 where s3: "new_list [''CloudCover''] h2 = (l3, h3)" by force
  from assms(1) s1 s2 s3 have s4: "list_add l2 l3 h3 = (columns, h')"
    by (simp add: columns_list_def)
  note f1 = new_list_frame [OF s1] and f2 = list_add_frame [OF s2]
    and f3 = new_list_frame [OF s3] and f4 = list_add_frame [OF s4]
  have len: "length h1 = Suc (length h)" "length h2 = Suc (Suc (length h))"
    "length h3 = Suc (Suc (Suc (length h)))" "length h' = Suc (Suc (Suc (Suc (length h))))"
    using f1(2) f2(2) f3(2) f4(2) by simp_all
  then show "length h < length h'" by simp
  show "h' ! a = h ! a" if "a < length h" for a
  proof -
    from that len have "a < length h1" "a < length h2" "a < length h3" by simp_all
    then show ?thesis
      using f1(4) [OF that] f2(4) [of a] f3(4) [of a] f4(4) [of a] by simp
  qed
  have b1: "h1 ! bands = h ! bands" using f1(4) [OF assms(2)] .
  have "l1 < length h1" "l2 < length h2" "l2 < length h3" "l3 < length h3"
    using f1(1) f2(1) f3(1) len by simp_all
  have "h2 ! l2 = [''Date'', ''Coordinate''] @ h ! bands"
    using f2(3) f1(3) b1 by simp
  moreover have "h3 ! l2 = h2 ! l2" using f3(4) [of l2] \<open>l2 < length h2\<close> by simp
  moreover have "h3 ! l3 = [''CloudCover'']" using f3(3) .
  ultimately have "h' ! columns = ([''Date'', ''Coordinate''] @ h ! bands) @ [''CloudCover'']"
    using f4(3) by simp
  then show "h' ! columns = table_columns (h ! bands)" by (simp add: table_columns_def)
qed

lemma heap_refines:
  assumes "bands < length h"
  shows "fst (Landsat_Surface_Reflectance_heap svc longitude latitude start_date end_date
                collection_address bands max_cloud_cover scale h)
         = Landsat_Surface_Reflectance svc longitude latitude start_date end_date
             collection_address (h ! bands) max_cloud_cover scale"
proof -
  obtain columns h' where c: "columns_list bands h = (columns, h')" by force
  from columns_list_frame [OF c assms] assms
  have "h' ! columns = table_columns (h ! bands)" "h' ! bands = h ! bands" by blast+
  with c show ?thesis
    unfolding Landsat_Surface_Reflectance_heap_def Landsat_Surface_Reflectance_def Let_def
    by (simp split: sum.splits)
qed

lemma heap_run:
  "Landsat_Surface_Reflectance_heap (catalog_service example_catalog) (- 122.431) 37.773
     ''2022-01-01'' ''2022-12-31'' default_collection_address 0 10 30 default_heap
   = (Inr example_table, heap_after_call)"
  by code_simp

text \<open>
  C9. The function leaves its arguments unchanged. The numbers and the strings are
  immutable values. For the list \<open>bands\<close>, passed by reference (the shared default list
  included): every list that existed before the call, \<open>bands\<close> among them, holds after
  the call what it held before, whatever the service answers; and the result is the one
  computed from the contents of \<open>bands\<close> at the call.
\<close>

theorem C9_arguments_unchanged:
  assumes "bands < length h"
      and "Landsat_Surface_Reflectance_heap svc longitude latitude start_date end_date
             collection_address bands max_cloud_cover scale h = (result, h')"
  shows "h' ! bands = h ! bands
         \<and> (\<forall>a<length h. h' ! a = h ! a)
         \<and> result = Landsat_Surface_Reflectance svc longitude latitude start_date end_date
                      collection_address (h ! bands) max_cloud_cover scale"
proof -
  obtain columns h1 where c: "columns_list bands h = (columns, h1)" by force
  note f = columns_list_frame [OF c assms(1)]
  from assms(2) c have "h' = h \<or> h' = h1"
    unfolding Landsat_Surface_Reflectance_heap_def Let_def
    by (auto split: sum.splits if_splits)
  with f(2) have frame: "\<forall>a<length h. h' ! a = h ! a" by auto
  from heap_refines [OF assms(1), of svc longitude latitude start_date end_date
      collection_address max_cloud_cover scale] assms(2)
  have "result = Landsat_Surface_Reflectance svc longitude latitude start_date end_date
                      collection_address (h ! bands) max_cloud_cover scale"
    by simp
  with frame assms(1) show ?thesis by simp
qed

theorem C9_witness:
  "(0::nat) < length default_heap
   \<and> Landsat_Surface_Reflectance_heap (catalog_service example_catalog) (- 122.431) 37.773
       ''2022-01-01'' ''2022-12-31'' default_collection_address 0 10 30 default_heap
     = (Inr example_table, heap_after_call)
   \<and> heap_after_call ! 0 = default_heap ! 0
   \<and> default_heap ! 0 = default_bands
   \<and> heap_after_call \<noteq> default_heap"
proof -
  have valid: "(0::nat) < length default_heap" by (simp add: default_heap_def)
  have d: "default_heap ! 0 = default_bands" by (simp add: default_heap_def)
  have changed: "heap_after_call \<noteq> default_heap"
    by (simp add: heap_after_call_def default_heap_def)
  from C9_arguments_unchanged [OF valid heap_run]
  have "heap_after_call ! 0 = default_heap ! 0" by blast
  with valid heap_run d changed show ?thesis by blast
qed

end
